theory Spec2Isabelle
  imports Main "HOL-Library.Char_ord" "HOL-Library.List_Lexorder" "HOL-Library.Monad_Syntax"
begin

section \<open>Data model (types.ts)\<close>

text \<open>
  The interfaces of the type declarations, one record each. A TypeScript \<open>number\<close> that
  holds an identifier or a count is an \<open>int\<close>; an optional field (\<open>closedAt?: string\<close>)
  is an \<open>option\<close>, \<open>None\<close> standing for \<open>undefined\<close>; a union of string literals is a
  datatype. Field names carry the record's prefix, since several interfaces share
  \<open>id\<close>, \<open>url\<close>, \<open>state\<close> and so on.
\<close>

datatype item_state = Open | Closed

datatype review_state = APPROVED | CHANGES_REQUESTED | COMMENTED | DISMISSED | PENDING

record repository =
  repo_name :: string
  repo_fullName :: string
  repo_owner :: string
  repo_url :: string
  repo_private :: bool

record PullRequest =
  pr_id :: int
  pr_number :: int
  pr_title :: string
  pr_url :: string
  pr_htmlUrl :: string
  pr_state :: item_state
  pr_createdAt :: string
  pr_updatedAt :: string
  pr_closedAt :: "string option"
  pr_mergedAt :: "string option"
  pr_repository :: repository
  pr_author :: string
  pr_draft :: bool
  pr_labels :: "string list"
  pr_assignees :: "string list"
  pr_reviewers :: "string list"
  pr_commits :: int
  pr_additions :: int
  pr_deletions :: int
  pr_changedFiles :: int

record Issue =
  iss_id :: int
  iss_number :: int
  iss_title :: string
  iss_url :: string
  iss_htmlUrl :: string
  iss_state :: item_state
  iss_createdAt :: string
  iss_updatedAt :: string
  iss_closedAt :: "string option"
  iss_repository :: repository
  iss_author :: string
  iss_labels :: "string list"
  iss_assignees :: "string list"
  iss_comments :: int
  iss_body :: "string option"

record Review =
  rv_id :: int
  rv_pullRequestNumber :: int
  rv_pullRequestTitle :: string
  rv_pullRequestUrl :: string
  rv_state :: review_state
  rv_submittedAt :: string
  rv_repository :: repository
  rv_author :: string
  rv_body :: "string option"
  rv_htmlUrl :: string

record metadata =
  lastUpdated :: string
  username :: string
  totalPullRequests :: int
  totalIssues :: int
  totalReviews :: int

record ActivityData =
  pullRequests :: "PullRequest list"
  issues :: "Issue list"
  reviews :: "Review list"
  metadata :: metadata

text \<open>
  \<open>Storage.append(type, items)\<close> takes the kind as a string and the items as a list of the
  union type, and casts the list to the kind's type without a check. The model joins
  the two arguments into one tagged list, so the items are of the kind that is named.
\<close>

datatype kind = KPullRequests | KIssues | KReviews

datatype items =
  PullRequestItems "PullRequest list"
| IssueItems "Issue list"
| ReviewItems "Review list"

fun kind_of :: "items \<Rightarrow> kind" where
  "kind_of (PullRequestItems _) = KPullRequests"
| "kind_of (IssueItems _) = KIssues"
| "kind_of (ReviewItems _) = KReviews"

fun item_ids :: "items \<Rightarrow> int list" where
  "item_ids (PullRequestItems xs) = map pr_id xs"
| "item_ids (IssueItems xs) = map iss_id xs"
| "item_ids (ReviewItems xs) = map rv_id xs"

fun collection_ids :: "kind \<Rightarrow> ActivityData \<Rightarrow> int list" where
  "collection_ids KPullRequests d = map pr_id (pullRequests d)"
| "collection_ids KIssues d = map iss_id (issues d)"
| "collection_ids KReviews d = map rv_id (reviews d)"

fun total_of :: "kind \<Rightarrow> ActivityData \<Rightarrow> int" where
  "total_of KPullRequests d = totalPullRequests (metadata d)"
| "total_of KIssues d = totalIssues (metadata d)"
| "total_of KReviews d = totalReviews (metadata d)"

section \<open>JSON text as the JSON backend writes and reads it\<close>

text \<open>
  \<open>JSON.stringify(data, null, 2)\<close> turns the snapshot into an object whose keys are the
  fields that are not \<open>undefined\<close>, and \<open>JSON.parse(text) as ActivityData\<close> reads the fields
  back from the parsed object. The text itself (quoting, indentation) is left abstract:
  a file holds the JSON value its text denotes, or text that does not parse.
\<close>

datatype json =
  JNull
| JBool bool
| JNum int
| JStr string
| JArr "json list"
| JObj "(string \<times> json) list"

definition opt_field :: "string \<Rightarrow> string option \<Rightarrow> (string \<times> json) list" where
  "opt_field k v = (case v of None \<Rightarrow> [] | Some s \<Rightarrow> [(k, JStr s)])"

definition str_array :: "string list \<Rightarrow> json" where
  "str_array xs = JArr (map JStr xs)"

fun state_json :: "item_state \<Rightarrow> json" where
  "state_json Open = JStr ''open''"
| "state_json Closed = JStr ''closed''"

fun review_state_json :: "review_state \<Rightarrow> json" where
  "review_state_json APPROVED = JStr ''APPROVED''"
| "review_state_json CHANGES_REQUESTED = JStr ''CHANGES_REQUESTED''"
| "review_state_json COMMENTED = JStr ''COMMENTED''"
| "review_state_json DISMISSED = JStr ''DISMISSED''"
| "review_state_json PENDING = JStr ''PENDING''"

definition stringify_repository :: "repository \<Rightarrow> json" where
  "stringify_repository r = JObj
     [(''name'', JStr (repo_name r)),
      (''fullName'', JStr (repo_fullName r)),
      (''owner'', JStr (repo_owner r)),
      (''url'', JStr (repo_url r)),
      (''private'', JBool (repo_private r))]"

definition stringify_pull_request :: "PullRequest \<Rightarrow> json" where
  "stringify_pull_request p = JObj
     ([(''id'', JNum (pr_id p)),
       (''number'', JNum (pr_number p)),
       (''title'', JStr (pr_title p)),
       (''url'', JStr (pr_url p)),
       (''htmlUrl'', JStr (pr_htmlUrl p)),
       (''state'', state_json (pr_state p)),
       (''createdAt'', JStr (pr_createdAt p)),
       (''updatedAt'', JStr (pr_updatedAt p))]
      @ opt_field ''closedAt'' (pr_closedAt p)
      @ opt_field ''mergedAt'' (pr_mergedAt p)
      @ [(''repository'', stringify_repository (pr_repository p)),
         (''author'', JStr (pr_author p)),
         (''draft'', JBool (pr_draft p)),
         (''labels'', str_array (pr_labels p)),
         (''assignees'', str_array (pr_assignees p)),
         (''reviewers'', str_array (pr_reviewers p)),
         (''commits'', JNum (pr_commits p)),
         (''additions'', JNum (pr_additions p)),
         (''deletions'', JNum (pr_deletions p)),
         (''changedFiles'', JNum (pr_changedFiles p))])"

definition stringify_issue :: "Issue \<Rightarrow> json" where
  "stringify_issue i = JObj
     ([(''id'', JNum (iss_id i)),
       (''number'', JNum (iss_number i)),
       (''title'', JStr (iss_title i)),
       (''url'', JStr (iss_url i)),
       (''htmlUrl'', JStr (iss_htmlUrl i)),
       (''state'', state_json (iss_state i)),
       (''createdAt'', JStr (iss_createdAt i)),
       (''updatedAt'', JStr (iss_updatedAt i))]
      @ opt_field ''closedAt'' (iss_closedAt i)
      @ [(''repository'', stringify_repository (iss_repository i)),
         (''author'', JStr (iss_author i)),
         (''labels'', str_array (iss_labels i)),
         (''assignees'', str_array (iss_assignees i)),
         (''comments'', JNum (iss_comments i))]
      @ opt_field ''body'' (iss_body i))"

definition stringify_review :: "Review \<Rightarrow> json" where
  "stringify_review r = JObj
     ([(''id'', JNum (rv_id r)),
       (''pullRequestNumber'', JNum (rv_pullRequestNumber r)),
       (''pullRequestTitle'', JStr (rv_pullRequestTitle r)),
       (''pullRequestUrl'', JStr (rv_pullRequestUrl r)),
       (''state'', review_state_json (rv_state r)),
       (''submittedAt'', JStr (rv_submittedAt r)),
       (''repository'', stringify_repository (rv_repository r)),
       (''author'', JStr (rv_author r))]
      @ opt_field ''body'' (rv_body r)
      @ [(''htmlUrl'', JStr (rv_htmlUrl r))])"

definition stringify_metadata :: "metadata \<Rightarrow> json" where
  "stringify_metadata m = JObj
     [(''lastUpdated'', JStr (lastUpdated m)),
      (''username'', JStr (username m)),
      (''totalPullRequests'', JNum (totalPullRequests m)),
      (''totalIssues'', JNum (totalIssues m)),
      (''totalReviews'', JNum (totalReviews m))]"

definition stringify_activity :: "ActivityData \<Rightarrow> json" where
  "stringify_activity d = JObj
     [(''pullRequests'', JArr (map stringify_pull_request (pullRequests d))),
      (''issues'', JArr (map stringify_issue (issues d))),
      (''reviews'', JArr (map stringify_review (reviews d))),
      (''metadata'', stringify_metadata (metadata d))]"

subsection \<open>Reading the parsed object back through the interface\<close>

text \<open>
  Each reader returns \<open>None\<close> when the object does not have the interface's shape; a
  field that is optional in the interface may be absent.
\<close>

fun field :: "(string \<times> json) list \<Rightarrow> string \<Rightarrow> json option" where
  "field [] k = None"
| "field ((k', v) # kv) k = (if k' = k then Some v else field kv k)"

definition get_str :: "(string \<times> json) list \<Rightarrow> string \<Rightarrow> string option" where
  "get_str kv k = (case field kv k of Some (JStr s) \<Rightarrow> Some s | _ \<Rightarrow> None)"

definition get_num :: "(string \<times> json) list \<Rightarrow> string \<Rightarrow> int option" where
  "get_num kv k = (case field kv k of Some (JNum n) \<Rightarrow> Some n | _ \<Rightarrow> None)"

definition get_bool :: "(string \<times> json) list \<Rightarrow> string \<Rightarrow> bool option" where
  "get_bool kv k = (case field kv k of Some (JBool b) \<Rightarrow> Some b | _ \<Rightarrow> None)"

definition get_opt_str :: "(string \<times> json) list \<Rightarrow> string \<Rightarrow> string option option" where
  "get_opt_str kv k =
     (case field kv k of None \<Rightarrow> Some None | Some (JStr s) \<Rightarrow> Some (Some s) | _ \<Rightarrow> None)"

fun those_list :: "'a option list \<Rightarrow> 'a list option" where
  "those_list [] = Some []"
| "those_list (x # xs) =
     (case x of None \<Rightarrow> None
      | Some y \<Rightarrow> (case those_list xs of None \<Rightarrow> None | Some ys \<Rightarrow> Some (y # ys)))"

fun json_str :: "json \<Rightarrow> string option" where
  "json_str (JStr s) = Some s"
| "json_str _ = None"

definition get_str_array :: "(string \<times> json) list \<Rightarrow> string \<Rightarrow> string list option" where
  "get_str_array kv k =
     (case field kv k of Some (JArr js) \<Rightarrow> those_list (map json_str js) | _ \<Rightarrow> None)"

definition parse_state :: "(string \<times> json) list \<Rightarrow> string \<Rightarrow> item_state option" where
  "parse_state kv k =
     (case get_str kv k of
        None \<Rightarrow> None
      | Some s \<Rightarrow> if s = ''open'' then Some Open
                  else if s = ''closed'' then Some Closed else None)"

definition parse_review_state :: "(string \<times> json) list \<Rightarrow> string \<Rightarrow> review_state option" where
  "parse_review_state kv k =
     (case get_str kv k of
        None \<Rightarrow> None
      | Some s \<Rightarrow> if s = ''APPROVED'' then Some APPROVED
                  else if s = ''CHANGES_REQUESTED'' then Some CHANGES_REQUESTED
                  else if s = ''COMMENTED'' then Some COMMENTED
                  else if s = ''DISMISSED'' then Some DISMISSED
                  else if s = ''PENDING'' then Some PENDING else None)"

fun parse_repository :: "json \<Rightarrow> repository option" where
  "parse_repository (JObj kv) =
     (case (get_str kv ''name'', get_str kv ''fullName'', get_str kv ''owner'',
            get_str kv ''url'', get_bool kv ''private'') of
        (Some n, Some f, Some ow, Some u, Some p) \<Rightarrow>
          Some \<lparr>repo_name = n, repo_fullName = f, repo_owner = ow, repo_url = u,
                repo_private = p\<rparr>
      | _ \<Rightarrow> None)"
| "parse_repository _ = None"

definition get_repository :: "(string \<times> json) list \<Rightarrow> string \<Rightarrow> repository option" where
  "get_repository kv k = (case field kv k of Some j \<Rightarrow> parse_repository j | None \<Rightarrow> None)"

fun parse_pull_request :: "json \<Rightarrow> PullRequest option" where
  "parse_pull_request (JObj kv) = do {
     i \<leftarrow> get_num kv ''id'';
     n \<leftarrow> get_num kv ''number'';
     t \<leftarrow> get_str kv ''title'';
     u \<leftarrow> get_str kv ''url'';
     h \<leftarrow> get_str kv ''htmlUrl'';
     s \<leftarrow> parse_state kv ''state'';
     c \<leftarrow> get_str kv ''createdAt'';
     up \<leftarrow> get_str kv ''updatedAt'';
     cl \<leftarrow> get_opt_str kv ''closedAt'';
     m \<leftarrow> get_opt_str kv ''mergedAt'';
     r \<leftarrow> get_repository kv ''repository'';
     a \<leftarrow> get_str kv ''author'';
     d \<leftarrow> get_bool kv ''draft'';
     ls \<leftarrow> get_str_array kv ''labels'';
     as \<leftarrow> get_str_array kv ''assignees'';
     rs \<leftarrow> get_str_array kv ''reviewers'';
     co \<leftarrow> get_num kv ''commits'';
     ad \<leftarrow> get_num kv ''additions'';
     de \<leftarrow> get_num kv ''deletions'';
     cf \<leftarrow> get_num kv ''changedFiles'';
     Some \<lparr>pr_id = i, pr_number = n, pr_title = t, pr_url = u, pr_htmlUrl = h,
           pr_state = s, pr_createdAt = c, pr_updatedAt = up, pr_closedAt = cl,
           pr_mergedAt = m, pr_repository = r, pr_author = a, pr_draft = d,
           pr_labels = ls, pr_assignees = as, pr_reviewers = rs, pr_commits = co,
           pr_additions = ad, pr_deletions = de, pr_changedFiles = cf\<rparr>
   }"
| "parse_pull_request _ = None"

fun parse_issue :: "json \<Rightarrow> Issue option" where
  "parse_issue (JObj kv) = do {
     i \<leftarrow> get_num kv ''id'';
     n \<leftarrow> get_num kv ''number'';
     t \<leftarrow> get_str kv ''title'';
     u \<leftarrow> get_str kv ''url'';
     h \<leftarrow> get_str kv ''htmlUrl'';
     s \<leftarrow> parse_state kv ''state'';
     c \<leftarrow> get_str kv ''createdAt'';
     up \<leftarrow> get_str kv ''updatedAt'';
     cl \<leftarrow> get_opt_str kv ''closedAt'';
     r \<leftarrow> get_repository kv ''repository'';
     a \<leftarrow> get_str kv ''author'';
     ls \<leftarrow> get_str_array kv ''labels'';
     as \<leftarrow> get_str_array kv ''assignees'';
     cm \<leftarrow> get_num kv ''comments'';
     b \<leftarrow> get_opt_str kv ''body'';
     Some \<lparr>iss_id = i, iss_number = n, iss_title = t, iss_url = u, iss_htmlUrl = h,
           iss_state = s, iss_createdAt = c, iss_updatedAt = up, iss_closedAt = cl,
           iss_repository = r, iss_author = a, iss_labels = ls, iss_assignees = as,
           iss_comments = cm, iss_body = b\<rparr>
   }"
| "parse_issue _ = None"

fun parse_review :: "json \<Rightarrow> Review option" where
  "parse_review (JObj kv) = do {
     i \<leftarrow> get_num kv ''id'';
     n \<leftarrow> get_num kv ''pullRequestNumber'';
     t \<leftarrow> get_str kv ''pullRequestTitle'';
     u \<leftarrow> get_str kv ''pullRequestUrl'';
     s \<leftarrow> parse_review_state kv ''state'';
     sa \<leftarrow> get_str kv ''submittedAt'';
     r \<leftarrow> get_repository kv ''repository'';
     a \<leftarrow> get_str kv ''author'';
     b \<leftarrow> get_opt_str kv ''body'';
     h \<leftarrow> get_str kv ''htmlUrl'';
     Some \<lparr>rv_id = i, rv_pullRequestNumber = n, rv_pullRequestTitle = t,
           rv_pullRequestUrl = u, rv_state = s, rv_submittedAt = sa, rv_repository = r,
           rv_author = a, rv_body = b, rv_htmlUrl = h\<rparr>
   }"
| "parse_review _ = None"

fun parse_metadata :: "json \<Rightarrow> metadata option" where
  "parse_metadata (JObj kv) = do {
     l \<leftarrow> get_str kv ''lastUpdated'';
     u \<leftarrow> get_str kv ''username'';
     tp \<leftarrow> get_num kv ''totalPullRequests'';
     ti \<leftarrow> get_num kv ''totalIssues'';
     tr \<leftarrow> get_num kv ''totalReviews'';
     Some \<lparr>lastUpdated = l, username = u, totalPullRequests = tp, totalIssues = ti,
           totalReviews = tr\<rparr>
   }"
| "parse_metadata _ = None"

definition get_array :: "(json \<Rightarrow> 'a option) \<Rightarrow> (string \<times> json) list \<Rightarrow> string \<Rightarrow> 'a list option" where
  "get_array f kv k =
     (case field kv k of Some (JArr js) \<Rightarrow> those_list (map f js) | _ \<Rightarrow> None)"

fun parse_activity :: "json \<Rightarrow> ActivityData option" where
  "parse_activity (JObj kv) = do {
     ps \<leftarrow> get_array parse_pull_request kv ''pullRequests'';
     is \<leftarrow> get_array parse_issue kv ''issues'';
     rs \<leftarrow> get_array parse_review kv ''reviews'';
     m \<leftarrow> (case field kv ''metadata'' of Some j \<Rightarrow> parse_metadata j | None \<Rightarrow> None);
     Some \<lparr>pullRequests = ps, issues = is, reviews = rs, metadata = m\<rparr>
   }"
| "parse_activity _ = None"

section \<open>JsonStorage (storage.ts)\<close>

text \<open>
  The state of the backend is the file at \<open>filePath\<close>: absent, holding JSON text, or
  holding text that is not JSON. Failures of the file system itself are outside the
  model, so \<open>save\<close> always writes. \<open>load\<close> returns \<open>null\<close> when the file is absent and
  raises when the text does not parse; the model also raises when the parsed value
  does not have the shape of \<open>ActivityData\<close>, where the source would hand the value on
  under the cast.
\<close>

datatype file_content = JsonText json | NotJson

type_synonym json_file = "file_content option"

datatype storage_error =
  LoadFailed
| AppendFailed kind storage_error

definition json_save :: "ActivityData \<Rightarrow> json_file \<Rightarrow> json_file" where
  "json_save data f = Some (JsonText (stringify_activity data))"

definition json_load :: "json_file \<Rightarrow> storage_error + ActivityData option" where
  "json_load f =
     (case f of
        None \<Rightarrow> Inr None
      | Some NotJson \<Rightarrow> Inl LoadFailed
      | Some (JsonText j) \<Rightarrow>
          (case parse_activity j of None \<Rightarrow> Inl LoadFailed | Some d \<Rightarrow> Inr (Some d)))"

text \<open>
  \<open>append\<close>: \<open>now\<close> is the text of \<open>new Date().toISOString()\<close> at the call. With no stored
  snapshot the items become the collection as they are; otherwise the items whose id
  is not among the stored ids of that kind are put behind the stored ones.
\<close>

definition empty_activity :: "string \<Rightarrow> ActivityData" where
  "empty_activity now =
     \<lparr>pullRequests = [], issues = [], reviews = [],
      metadata = \<lparr>lastUpdated = now, username = [], totalPullRequests = 0,
                  totalIssues = 0, totalReviews = 0\<rparr>\<rparr>"

fun set_new_items :: "items \<Rightarrow> ActivityData \<Rightarrow> ActivityData" where
  "set_new_items (PullRequestItems xs) d =
     d\<lparr>pullRequests := xs,
       metadata := (metadata d)\<lparr>totalPullRequests := int (length xs)\<rparr>\<rparr>"
| "set_new_items (IssueItems xs) d =
     d\<lparr>issues := xs, metadata := (metadata d)\<lparr>totalIssues := int (length xs)\<rparr>\<rparr>"
| "set_new_items (ReviewItems xs) d =
     d\<lparr>reviews := xs, metadata := (metadata d)\<lparr>totalReviews := int (length xs)\<rparr>\<rparr>"

fun merge_items :: "string \<Rightarrow> items \<Rightarrow> ActivityData \<Rightarrow> ActivityData" where
  "merge_items now (PullRequestItems xs) d =
     (let existingItems = pullRequests d;
          existingIds = set (map pr_id existingItems);
          newItems = filter (\<lambda>item. pr_id item \<notin> existingIds) xs;
          merged = existingItems @ newItems
      in d\<lparr>pullRequests := merged,
           metadata := (metadata d)\<lparr>lastUpdated := now,
                                    totalPullRequests := int (length merged)\<rparr>\<rparr>)"
| "merge_items now (IssueItems xs) d =
     (let existingItems = issues d;
          existingIds = set (map iss_id existingItems);
          newItems = filter (\<lambda>item. iss_id item \<notin> existingIds) xs;
          merged = existingItems @ newItems
      in d\<lparr>issues := merged,
           metadata := (metadata d)\<lparr>lastUpdated := now,
                                    totalIssues := int (length merged)\<rparr>\<rparr>)"
| "merge_items now (ReviewItems xs) d =
     (let existingItems = reviews d;
          existingIds = set (map rv_id existingItems);
          newItems = filter (\<lambda>item. rv_id item \<notin> existingIds) xs;
          merged = existingItems @ newItems
      in d\<lparr>reviews := merged,
           metadata := (metadata d)\<lparr>lastUpdated := now,
                                    totalReviews := int (length merged)\<rparr>\<rparr>)"

definition json_append :: "string \<Rightarrow> items \<Rightarrow> json_file \<Rightarrow> storage_error + json_file" where
  "json_append now its f =
     (case json_load f of
        Inl e \<Rightarrow> Inl (AppendFailed (kind_of its) e)
      | Inr None \<Rightarrow> Inr (json_save (set_new_items its (empty_activity now)) f)
      | Inr (Some existingData) \<Rightarrow> Inr (json_save (merge_items now its existingData) f))"

subsection \<open>Sequences of append calls and the store's invariant\<close>

text \<open>
  A sequence of \<open>append\<close> calls, each with the clock text of its call; the first call
  that raises ends the sequence.
\<close>

fun run_appends :: "(string \<times> items) list \<Rightarrow> json_file \<Rightarrow> storage_error + json_file" where
  "run_appends [] f = Inr f"
| "run_appends ((now, its) # calls) f =
     (case json_append now its f of
        Inl e \<Rightarrow> Inl e
      | Inr f' \<Rightarrow> run_appends calls f')"

definition snapshot_ok :: "ActivityData \<Rightarrow> bool" where
  "snapshot_ok d \<longleftrightarrow>
     distinct (map pr_id (pullRequests d)) \<and>
     distinct (map iss_id (issues d)) \<and>
     distinct (map rv_id (reviews d)) \<and>
     totalPullRequests (metadata d) = int (length (pullRequests d)) \<and>
     totalIssues (metadata d) = int (length (issues d)) \<and>
     totalReviews (metadata d) = int (length (reviews d))"

definition store_ok :: "json_file \<Rightarrow> bool" where
  "store_ok f =
     (case json_load f of
        Inl e \<Rightarrow> False
      | Inr None \<Rightarrow> True
      | Inr (Some d) \<Rightarrow> snapshot_ok d)"

fun calls_distinct :: "(string \<times> items) list \<Rightarrow> bool" where
  "calls_distinct [] = True"
| "calls_distinct ((now, its) # calls) = (distinct (item_ids its) \<and> calls_distinct calls)"

definition stored_ids :: "kind \<Rightarrow> ActivityData option \<Rightarrow> int list" where
  "stored_ids k stored = (case stored of None \<Rightarrow> [] | Some d \<Rightarrow> collection_ids k d)"

subsection \<open>Example values (from the storage tests)\<close>

definition example_repository :: repository where
  "example_repository =
     \<lparr>repo_name = ''repo'', repo_fullName = ''owner/repo'', repo_owner = ''owner'',
      repo_url = ''https://github.com/owner/repo'', repo_private = False\<rparr>"

definition example_issue :: Issue where
  "example_issue =
     \<lparr>iss_id = 10, iss_number = 1, iss_title = ''Test Issue'',
      iss_url = ''https://api.github.com/repos/owner/repo/issues/1'',
      iss_htmlUrl = ''https://github.com/owner/repo/issues/1'',
      iss_state = Open,
      iss_createdAt = ''2025-01-01T00:00:00Z'',
      iss_updatedAt = ''2025-01-01T00:00:00Z'',
      iss_closedAt = None,
      iss_repository = example_repository,
      iss_author = ''testuser'',
      iss_labels = [], iss_assignees = [], iss_comments = 0, iss_body = None\<rparr>"

definition example_clock :: string where
  "example_clock = ''2025-01-02T00:00:00.000Z''"

definition duplicated_snapshot :: ActivityData where
  "duplicated_snapshot =
     \<lparr>pullRequests = [], issues = [example_issue, example_issue], reviews = [],
      metadata = \<lparr>lastUpdated = example_clock, username = [], totalPullRequests = 0,
                  totalIssues = 2, totalReviews = 0\<rparr>\<rparr>"

definition example_issue_2 :: Issue where
  "example_issue_2 =
     example_issue\<lparr>iss_id := 11, iss_number := 2, iss_title := ''Second Issue'',
       iss_createdAt := ''2025-01-02T00:00:00Z'', iss_updatedAt := ''2025-01-02T00:00:00Z''\<rparr>"


section \<open>SqliteStorage (storage.ts, DATA_SCHEMA.sql)\<close>

text \<open>
  The three tables the backend writes, with the columns it gives values to. A table is
  the list of its rows in the order of their row ids. The columns \<open>labels\<close>, \<open>assignees\<close>
  and \<open>metadata\<close> hold JSON text; a row keeps the value that the text encodes, which is
  what \<open>JSON.parse\<close> gives back for what \<open>JSON.stringify\<close> wrote. Columns declared
  \<open>TEXT\<close> keep the text they are given. The state column of \<open>pull_requests\<close> also takes
  \<open>merged\<close>.
\<close>

subsection \<open>Column affinity of the timestamps\<close>

text \<open>
  The columns \<open>created_at\<close>, \<open>updated_at\<close>, \<open>closed_at\<close>, \<open>merged_at\<close> and \<open>submitted_at\<close> are
  declared \<open>TIMESTAMP\<close>, which gives them NUMERIC affinity: a text that is a well-formed
  integer or real literal is stored as a number, and comes back from a \<open>SELECT\<close> as a
  JavaScript number; any other text is stored as it is. \<open>numeric_literal\<close> is the test
  that SQLite applies to the text (\<open>sqlite3AtoF\<close>): white space, an optional sign, digits
  with an optional point among them, at least one digit, an optional exponent with
  at least one digit, white space, and nothing else. A cell of such a column is the
  text it keeps, or a number; the model does not follow which number.
\<close>

definition is_space :: "char \<Rightarrow> bool" where
  "is_space c \<longleftrightarrow> c \<in> set [CHR 0x09, CHR 0x0A, CHR 0x0B, CHR 0x0C, CHR 0x0D, CHR 0x20]"

definition is_digit :: "char \<Rightarrow> bool" where
  "is_digit c \<longleftrightarrow> c \<in> set ''0123456789''"

definition drop_sign :: "string \<Rightarrow> string" where
  "drop_sign s =
     (case s of [] \<Rightarrow> [] | c # r \<Rightarrow> if c = CHR ''-'' \<or> c = CHR ''+'' then r else s)"

definition numeric_literal :: "string \<Rightarrow> bool" where
  "numeric_literal s =
     (let s1 = drop_sign (dropWhile is_space s);
          whole = takeWhile is_digit s1;
          s2 = dropWhile is_digit s1;
          point = (s2 \<noteq> [] \<and> hd s2 = CHR ''.'');
          fraction = (if point then takeWhile is_digit (tl s2) else []);
          s3 = (if point then dropWhile is_digit (tl s2) else s2);
          exponent = (s3 \<noteq> [] \<and> (hd s3 = CHR ''e'' \<or> hd s3 = CHR ''E''));
          exponent_digits = (if exponent then takeWhile is_digit (drop_sign (tl s3)) else []);
          s4 = (if exponent then dropWhile is_digit (drop_sign (tl s3)) else s3)
      in whole @ fraction \<noteq> [] \<and> (exponent \<longrightarrow> exponent_digits \<noteq> [])
         \<and> dropWhile is_space s4 = [])"

datatype timestamp_cell = TextCell string | NumberCell

definition numeric_affinity :: "string \<Rightarrow> timestamp_cell" where
  "numeric_affinity s = (if numeric_literal s then NumberCell else TextCell s)"

subsection \<open>Rows\<close>

datatype row_state = RowOpen | RowClosed | RowMerged

record pr_metadata =
  pm_htmlUrl :: string
  pm_url :: string
  pm_reviewers :: "string list"
  pm_commits :: int
  pm_private :: bool
  pm_fullName :: string
  pm_repoUrl :: string

record pr_row =
  prow_id :: nat
  prow_github_id :: int
  prow_pr_number :: int
  prow_title :: string
  prow_url :: string
  prow_state :: row_state
  prow_repo_owner :: string
  prow_repo_name :: string
  prow_author :: string
  prow_created_at :: timestamp_cell
  prow_updated_at :: timestamp_cell
  prow_closed_at :: "timestamp_cell option"
  prow_merged_at :: "timestamp_cell option"
  prow_draft :: int
  prow_additions :: int
  prow_deletions :: int
  prow_changed_files :: int
  prow_labels :: "string list"
  prow_assignees :: "string list"
  prow_metadata :: pr_metadata

record issue_metadata =
  im_htmlUrl :: string
  im_url :: string
  im_body :: "string option"
  im_private :: bool
  im_fullName :: string
  im_repoUrl :: string

record issue_row =
  irow_id :: nat
  irow_github_id :: int
  irow_issue_number :: int
  irow_title :: string
  irow_url :: string
  irow_state :: item_state
  irow_repo_owner :: string
  irow_repo_name :: string
  irow_author :: string
  irow_created_at :: timestamp_cell
  irow_updated_at :: timestamp_cell
  irow_closed_at :: "timestamp_cell option"
  irow_comments_count :: int
  irow_labels :: "string list"
  irow_assignees :: "string list"
  irow_metadata :: issue_metadata

record review_metadata =
  rm_pullRequestNumber :: int
  rm_pullRequestTitle :: string
  rm_pullRequestUrl :: string
  rm_htmlUrl :: string
  rm_repository :: repository

record review_row =
  rrow_id :: nat
  rrow_github_id :: int
  rrow_pr_id :: nat
  rrow_reviewer :: string
  rrow_state :: review_state
  rrow_body :: "string option"
  rrow_submitted_at :: timestamp_cell
  rrow_metadata :: review_metadata

text \<open>
  The database: the three tables and, for each, the last row id given out (the ids are
  \<open>AUTOINCREMENT\<close>, so an id is never given twice, also after a delete).
\<close>

record database =
  db_pull_requests :: "pr_row list"
  db_issues :: "issue_row list"
  db_reviews :: "review_row list"
  db_pr_seq :: nat
  db_issue_seq :: nat
  db_review_seq :: nat

definition empty_database :: database where
  "empty_database =
     \<lparr>db_pull_requests = [], db_issues = [], db_reviews = [],
      db_pr_seq = 0, db_issue_seq = 0, db_review_seq = 0\<rparr>"

subsection \<open>The rows that save and append write\<close>

text \<open>\<open>x || null\<close> for an optional string: absent and empty both give \<open>NULL\<close>.\<close>

definition or_null :: "string option \<Rightarrow> string option" where
  "or_null s = (case s of None \<Rightarrow> None | Some x \<Rightarrow> if x = [] then None else Some x)"

definition pull_request_row :: "nat \<Rightarrow> PullRequest \<Rightarrow> pr_row" where
  "pull_request_row new_id pr =
     \<lparr>prow_id = new_id,
      prow_github_id = pr_id pr,
      prow_pr_number = pr_number pr,
      prow_title = pr_title pr,
      prow_url = pr_htmlUrl pr,
      prow_state = (if or_null (pr_mergedAt pr) \<noteq> None then RowMerged
                    else (case pr_state pr of Open \<Rightarrow> RowOpen | Closed \<Rightarrow> RowClosed)),
      prow_repo_owner = repo_owner (pr_repository pr),
      prow_repo_name = repo_name (pr_repository pr),
      prow_author = pr_author pr,
      prow_created_at = numeric_affinity (pr_createdAt pr),
      prow_updated_at = numeric_affinity (pr_updatedAt pr),
      prow_closed_at = map_option numeric_affinity (or_null (pr_closedAt pr)),
      prow_merged_at = map_option numeric_affinity (or_null (pr_mergedAt pr)),
      prow_draft = (if pr_draft pr then 1 else 0),
      prow_additions = pr_additions pr,
      prow_deletions = pr_deletions pr,
      prow_changed_files = pr_changedFiles pr,
      prow_labels = pr_labels pr,
      prow_assignees = pr_assignees pr,
      prow_metadata =
        \<lparr>pm_htmlUrl = pr_htmlUrl pr,
         pm_url = pr_url pr,
         pm_reviewers = pr_reviewers pr,
         pm_commits = pr_commits pr,
         pm_private = repo_private (pr_repository pr),
         pm_fullName = repo_fullName (pr_repository pr),
         pm_repoUrl = repo_url (pr_repository pr)\<rparr>\<rparr>"

definition issue_row_of :: "nat \<Rightarrow> Issue \<Rightarrow> issue_row" where
  "issue_row_of new_id issue =
     \<lparr>irow_id = new_id,
      irow_github_id = iss_id issue,
      irow_issue_number = iss_number issue,
      irow_title = iss_title issue,
      irow_url = iss_htmlUrl issue,
      irow_state = iss_state issue,
      irow_repo_owner = repo_owner (iss_repository issue),
      irow_repo_name = repo_name (iss_repository issue),
      irow_author = iss_author issue,
      irow_created_at = numeric_affinity (iss_createdAt issue),
      irow_updated_at = numeric_affinity (iss_updatedAt issue),
      irow_closed_at = map_option numeric_affinity (or_null (iss_closedAt issue)),
      irow_comments_count = iss_comments issue,
      irow_labels = iss_labels issue,
      irow_assignees = iss_assignees issue,
      irow_metadata =
        \<lparr>im_htmlUrl = iss_htmlUrl issue,
         im_url = iss_url issue,
         im_body = iss_body issue,
         im_private = repo_private (iss_repository issue),
         im_fullName = repo_fullName (iss_repository issue),
         im_repoUrl = repo_url (iss_repository issue)\<rparr>\<rparr>"

definition review_row_of :: "nat \<Rightarrow> nat \<Rightarrow> Review \<Rightarrow> review_row" where
  "review_row_of new_id parent review =
     \<lparr>rrow_id = new_id,
      rrow_github_id = rv_id review,
      rrow_pr_id = parent,
      rrow_reviewer = rv_author review,
      rrow_state = rv_state review,
      rrow_body = or_null (rv_body review),
      rrow_submitted_at = numeric_affinity (rv_submittedAt review),
      rrow_metadata =
        \<lparr>rm_pullRequestNumber = rv_pullRequestNumber review,
         rm_pullRequestTitle = rv_pullRequestTitle review,
         rm_pullRequestUrl = rv_pullRequestUrl review,
         rm_htmlUrl = rv_htmlUrl review,
         rm_repository = rv_repository review\<rparr>\<rparr>"

subsection \<open>INSERT OR REPLACE\<close>

text \<open>
  \<open>INSERT OR REPLACE\<close> deletes the rows that the new row would collide with under a
  \<open>UNIQUE\<close> constraint (\<open>github_id\<close>; owner, name and number), then inserts the new row
  under a fresh id. Foreign keys are on, and \<open>reviews.pr_id\<close> is declared
  \<open>ON DELETE CASCADE\<close>: the reviews of a deleted pull request row go with it.
\<close>

definition pr_collides :: "PullRequest \<Rightarrow> pr_row \<Rightarrow> bool" where
  "pr_collides pr r \<longleftrightarrow>
     prow_github_id r = pr_id pr
     \<or> (prow_repo_owner r = repo_owner (pr_repository pr)
        \<and> prow_repo_name r = repo_name (pr_repository pr)
        \<and> prow_pr_number r = pr_number pr)"

definition insert_pull_request :: "PullRequest \<Rightarrow> database \<Rightarrow> database" where
  "insert_pull_request pr db =
     (let deleted = map prow_id (filter (pr_collides pr) (db_pull_requests db));
          new_id = Suc (db_pr_seq db)
      in db\<lparr>db_pull_requests :=
                filter (\<lambda>r. \<not> pr_collides pr r) (db_pull_requests db)
                  @ [pull_request_row new_id pr],
              db_reviews := filter (\<lambda>r. rrow_pr_id r \<notin> set deleted) (db_reviews db),
              db_pr_seq := new_id\<rparr>)"

definition issue_collides :: "Issue \<Rightarrow> issue_row \<Rightarrow> bool" where
  "issue_collides issue r \<longleftrightarrow>
     irow_github_id r = iss_id issue
     \<or> (irow_repo_owner r = repo_owner (iss_repository issue)
        \<and> irow_repo_name r = repo_name (iss_repository issue)
        \<and> irow_issue_number r = iss_number issue)"

definition insert_issue :: "Issue \<Rightarrow> database \<Rightarrow> database" where
  "insert_issue issue db =
     (let new_id = Suc (db_issue_seq db)
      in db\<lparr>db_issues :=
                filter (\<lambda>r. \<not> issue_collides issue r) (db_issues db)
                  @ [issue_row_of new_id issue],
              db_issue_seq := new_id\<rparr>)"

definition insert_review :: "nat \<Rightarrow> Review \<Rightarrow> database \<Rightarrow> database" where
  "insert_review parent review db =
     (let new_id = Suc (db_review_seq db)
      in db\<lparr>db_reviews :=
                filter (\<lambda>r. rrow_github_id r \<noteq> rv_id review) (db_reviews db)
                  @ [review_row_of new_id parent review],
              db_review_seq := new_id\<rparr>)"

subsection \<open>The two lookups of a review's pull request\<close>

text \<open>
  \<open>save\<close>: \<open>SELECT id FROM pull_requests WHERE github_id = ? LIMIT 1\<close>, with the review's
  own id as the parameter.
\<close>

definition find_pr_by_github_id :: "int \<Rightarrow> database \<Rightarrow> nat option" where
  "find_pr_by_github_id gid db =
     (case filter (\<lambda>r. prow_github_id r = gid) (db_pull_requests db) of
        [] \<Rightarrow> None
      | r # rest \<Rightarrow> Some (prow_id r))"

text \<open>
  \<open>append\<close>: \<open>SELECT id FROM pull_requests WHERE pr_number = ? AND repo_owner = ? AND
  repo_name = ? LIMIT 1\<close>, with the review's pull request number and repository.
\<close>

definition find_pr_by_number :: "int \<Rightarrow> string \<Rightarrow> string \<Rightarrow> database \<Rightarrow> nat option" where
  "find_pr_by_number n owner name db =
     (case filter (\<lambda>r. prow_pr_number r = n \<and> prow_repo_owner r = owner
                        \<and> prow_repo_name r = name) (db_pull_requests db) of
        [] \<Rightarrow> None
      | r # rest \<Rightarrow> Some (prow_id r))"

subsection \<open>save\<close>

definition save_review :: "Review \<Rightarrow> database \<Rightarrow> database" where
  "save_review review db =
     (case find_pr_by_github_id (rv_id review) db of
        None \<Rightarrow> db
      | Some prRow \<Rightarrow> insert_review prRow review db)"

definition sqlite_save :: "ActivityData \<Rightarrow> database \<Rightarrow> database" where
  "sqlite_save data db =
     (let cleared = db\<lparr>db_pull_requests := [], db_issues := [], db_reviews := []\<rparr>;
          with_prs = foldl (\<lambda>d pr. insert_pull_request pr d) cleared (pullRequests data);
          with_issues = foldl (\<lambda>d issue. insert_issue issue d) with_prs (issues data)
      in foldl (\<lambda>d review. save_review review d) with_issues (reviews data))"

subsection \<open>append\<close>

definition append_review :: "Review \<Rightarrow> database \<Rightarrow> database" where
  "append_review review db =
     (case find_pr_by_number (rv_pullRequestNumber review)
             (repo_owner (rv_repository review)) (repo_name (rv_repository review)) db of
        None \<Rightarrow> db
      | Some prRow \<Rightarrow> insert_review prRow review db)"

fun sqlite_append :: "items \<Rightarrow> database \<Rightarrow> database" where
  "sqlite_append (PullRequestItems xs) db = foldl (\<lambda>d pr. insert_pull_request pr d) db xs"
| "sqlite_append (IssueItems xs) db = foldl (\<lambda>d issue. insert_issue issue d) db xs"
| "sqlite_append (ReviewItems xs) db = foldl (\<lambda>d review. append_review review d) db xs"

subsection \<open>load\<close>

text \<open>
  What \<open>load\<close> reads from a timestamp cell. A cell that holds a number gives a number
  where the record has a string, so the object that the source builds from the row is
  not a record of the row's type: the model gives \<open>None\<close> for such a row and follows it
  no further. \<open>(row.closed_at as string) || undefined\<close> turns \<open>NULL\<close> into an absent
  field.
\<close>

definition cell_text :: "timestamp_cell \<Rightarrow> string option" where
  "cell_text c = (case c of TextCell s \<Rightarrow> Some s | NumberCell \<Rightarrow> None)"

definition optional_cell_text :: "timestamp_cell option \<Rightarrow> string option option" where
  "optional_cell_text c =
     (case c of
        None \<Rightarrow> Some None
      | Some (TextCell s) \<Rightarrow> Some (or_null (Some s))
      | Some NumberCell \<Rightarrow> None)"

text \<open>
  \<open>ORDER BY created_at DESC\<close> over texts: by the bytes of the text, greatest first. SQL
  leaves the order of rows with equal keys open; the model keeps them in row order.
\<close>

definition order_by_desc :: "('a \<Rightarrow> string) \<Rightarrow> 'a list \<Rightarrow> 'a list" where
  "order_by_desc key rows = rev (sort_key key (rev rows))"

definition or_text :: "string \<Rightarrow> string \<Rightarrow> string" where
  "or_text s d = (if s = [] then d else s)"

definition pull_request_of_row :: "pr_row \<Rightarrow> PullRequest option" where
  "pull_request_of_row row =
     (case (cell_text (prow_created_at row), cell_text (prow_updated_at row),
            optional_cell_text (prow_closed_at row), optional_cell_text (prow_merged_at row)) of
        (Some created_at, Some updated_at, Some closed_at, Some merged_at) \<Rightarrow>
          (let metadata = prow_metadata row
           in Some
             \<lparr>pr_id = prow_github_id row,
              pr_number = prow_pr_number row,
              pr_title = prow_title row,
              pr_url = or_text (pm_url metadata) (prow_url row),
              pr_htmlUrl = or_text (pm_htmlUrl metadata) (prow_url row),
              pr_state = (case prow_state row of
                            RowMerged \<Rightarrow> Closed | RowOpen \<Rightarrow> Open | RowClosed \<Rightarrow> Closed),
              pr_createdAt = created_at,
              pr_updatedAt = updated_at,
              pr_closedAt = closed_at,
              pr_mergedAt = merged_at,
              pr_repository =
                \<lparr>repo_name = prow_repo_name row,
                 repo_fullName = or_text (pm_fullName metadata)
                                   (prow_repo_owner row @ ''/'' @ prow_repo_name row),
                 repo_owner = prow_repo_owner row,
                 repo_url = or_text (pm_repoUrl metadata)
                              (''https://github.com/'' @ prow_repo_owner row @ ''/''
                                 @ prow_repo_name row),
                 repo_private = pm_private metadata\<rparr>,
              pr_author = prow_author row,
              pr_draft = (prow_draft row = 1),
              pr_labels = prow_labels row,
              pr_assignees = prow_assignees row,
              pr_reviewers = pm_reviewers metadata,
              pr_commits = pm_commits metadata,
              pr_additions = prow_additions row,
              pr_deletions = prow_deletions row,
              pr_changedFiles = prow_changed_files row\<rparr>)
      | _ \<Rightarrow> None)"

definition issue_of_row :: "issue_row \<Rightarrow> Issue option" where
  "issue_of_row row =
     (case (cell_text (irow_created_at row), cell_text (irow_updated_at row),
            optional_cell_text (irow_closed_at row)) of
        (Some created_at, Some updated_at, Some closed_at) \<Rightarrow>
          (let metadata = irow_metadata row
           in Some
             \<lparr>iss_id = irow_github_id row,
              iss_number = irow_issue_number row,
              iss_title = irow_title row,
              iss_url = or_text (im_url metadata) (irow_url row),
              iss_htmlUrl = or_text (im_htmlUrl metadata) (irow_url row),
              iss_state = irow_state row,
              iss_createdAt = created_at,
              iss_updatedAt = updated_at,
              iss_closedAt = closed_at,
              iss_repository =
                \<lparr>repo_name = irow_repo_name row,
                 repo_fullName = or_text (im_fullName metadata)
                                   (irow_repo_owner row @ ''/'' @ irow_repo_name row),
                 repo_owner = irow_repo_owner row,
                 repo_url = or_text (im_repoUrl metadata)
                              (''https://github.com/'' @ irow_repo_owner row @ ''/''
                                 @ irow_repo_name row),
                 repo_private = im_private metadata\<rparr>,
              iss_author = irow_author row,
              iss_labels = irow_labels row,
              iss_assignees = irow_assignees row,
              iss_comments = irow_comments_count row,
              iss_body = im_body metadata\<rparr>)
      | _ \<Rightarrow> None)"

definition review_of_row :: "review_row \<Rightarrow> Review option" where
  "review_of_row row =
     (case cell_text (rrow_submitted_at row) of
        Some submitted_at \<Rightarrow>
          (let metadata = rrow_metadata row
           in Some
             \<lparr>rv_id = rrow_github_id row,
              rv_pullRequestNumber = rm_pullRequestNumber metadata,
              rv_pullRequestTitle = rm_pullRequestTitle metadata,
              rv_pullRequestUrl = rm_pullRequestUrl metadata,
              rv_state = rrow_state row,
              rv_submittedAt = submitted_at,
              rv_repository = rm_repository metadata,
              rv_author = rrow_reviewer row,
              rv_body = or_null (rrow_body row),
              rv_htmlUrl = rm_htmlUrl metadata\<rparr>)
      | None \<Rightarrow> None)"

definition derived_username :: "PullRequest list \<Rightarrow> Issue list \<Rightarrow> Review list \<Rightarrow> string" where
  "derived_username prs iss rvs =
     (case prs of
        p # ps \<Rightarrow> pr_author p
      | [] \<Rightarrow> (case iss of
                 i # is \<Rightarrow> iss_author i
               | [] \<Rightarrow> (case rvs of r # rs \<Rightarrow> rv_author r | [] \<Rightarrow> [])))"

text \<open>
  What \<open>load\<close> returns: \<open>null\<close>, a snapshot, or an object that is not a snapshot because
  a timestamp in it is a number. \<open>now\<close> is the text of \<open>new Date().toISOString()\<close> at the
  load. The rows come in the order of their \<open>created_at\<close> (\<open>submitted_at\<close> for the
  reviews), which for rows that hold texts is the order of the records' \<open>createdAt\<close>.
\<close>

datatype loaded = Null | Snapshot ActivityData | NumberInTimestamp

definition sqlite_load :: "string \<Rightarrow> database \<Rightarrow> loaded" where
  "sqlite_load now db =
     (if length (db_pull_requests db) = 0 \<and> length (db_issues db) = 0
         \<and> length (db_reviews db) = 0
      then Null
      else
        (case (those_list (map pull_request_of_row (db_pull_requests db)),
               those_list (map issue_of_row (db_issues db)),
               those_list (map review_of_row (db_reviews db))) of
           (Some pr_records, Some issue_records, Some review_records) \<Rightarrow>
             (let prs = order_by_desc pr_createdAt pr_records;
                  iss = order_by_desc iss_createdAt issue_records;
                  rvs = order_by_desc rv_submittedAt review_records
              in Snapshot
                   \<lparr>pullRequests = prs, issues = iss, reviews = rvs,
                    metadata = \<lparr>lastUpdated = now,
                                username = derived_username prs iss rvs,
                                totalPullRequests = int (length prs),
                                totalIssues = int (length iss),
                                totalReviews = int (length rvs)\<rparr>\<rparr>)
         | _ \<Rightarrow> NumberInTimestamp))"

subsection \<open>Example snapshot (from the storage tests)\<close>

definition example_pull_request :: PullRequest where
  "example_pull_request =
     \<lparr>pr_id = 1, pr_number = 100, pr_title = ''Existing PR'',
      pr_url = ''https://api.github.com/repos/owner/repo/pulls/100'',
      pr_htmlUrl = ''https://github.com/owner/repo/pull/100'',
      pr_state = Open,
      pr_createdAt = ''2025-01-01T00:00:00Z'',
      pr_updatedAt = ''2025-01-01T00:00:00Z'',
      pr_closedAt = None, pr_mergedAt = None,
      pr_repository = example_repository,
      pr_author = ''testuser'', pr_draft = False,
      pr_labels = [], pr_assignees = [], pr_reviewers = [],
      pr_commits = 1, pr_additions = 10, pr_deletions = 5, pr_changedFiles = 2\<rparr>"

definition example_review :: Review where
  "example_review =
     \<lparr>rv_id = 100, rv_pullRequestNumber = 100, rv_pullRequestTitle = ''Existing PR'',
      rv_pullRequestUrl = ''https://api.github.com/repos/owner/repo/pulls/100'',
      rv_state = APPROVED,
      rv_submittedAt = ''2025-01-01T00:00:00Z'',
      rv_repository = example_repository,
      rv_author = ''reviewer'', rv_body = None,
      rv_htmlUrl = ''https://github.com/owner/repo/pull/100#review-100''\<rparr>"

definition example_snapshot :: ActivityData where
  "example_snapshot =
     \<lparr>pullRequests = [example_pull_request], issues = [example_issue],
      reviews = [example_review],
      metadata = \<lparr>lastUpdated = ''2025-01-01T00:00:00Z'', username = ''testuser'',
                  totalPullRequests = 1, totalIssues = 1, totalReviews = 1\<rparr>\<rparr>"

definition example_pull_request_2 :: PullRequest where
  "example_pull_request_2 =
     example_pull_request\<lparr>pr_id := 2, pr_number := 101, pr_title := ''New PR'',
       pr_createdAt := ''2025-01-02T00:00:00Z'', pr_updatedAt := ''2025-01-02T00:00:00Z''\<rparr>"

text \<open>A snapshot whose records are in the order of their creation, the oldest first.\<close>

definition two_of_each :: ActivityData where
  "two_of_each =
     \<lparr>pullRequests = [example_pull_request, example_pull_request_2],
      issues = [example_issue, example_issue_2],
      reviews = [example_review],
      metadata = \<lparr>lastUpdated = ''2025-01-01T00:00:00Z'', username = ''testuser'',
                  totalPullRequests = 2, totalIssues = 2, totalReviews = 1\<rparr>\<rparr>"

subsection \<open>Snapshots that the relational backend gives back unchanged\<close>







section \<open>GitHubClient (github-client.ts)\<close>

subsection \<open>Values of the remote API\<close>

text \<open>
  A search item as the client reads it. \<open>closed_at\<close>, \<open>body\<close>, the user's login and the
  assignees may be \<open>null\<close> or \<open>undefined\<close> (\<open>None\<close>); a label is a string or an object
  with an optional name. The states arrive as strings that the client casts to the
  literal types, and the model takes the casts at their word.
\<close>

datatype label = LabelString string | LabelObject "string option"

record GitHubSearchItem =
  si_id :: int
  si_number :: int
  si_title :: string
  si_url :: string
  si_html_url :: string
  si_state :: item_state
  si_created_at :: string
  si_updated_at :: string
  si_closed_at :: "string option"
  si_repository_url :: string
  si_user_login :: "string option"
  si_labels :: "label list"
  si_assignees :: "string option list option"
  si_comments :: "int option"
  si_body :: "string option"

record PullRequestDetail =
  pd_id :: int
  pd_number :: int
  pd_title :: string
  pd_url :: string
  pd_html_url :: string
  pd_state :: item_state
  pd_created_at :: string
  pd_updated_at :: string
  pd_closed_at :: "string option"
  pd_merged_at :: "string option"
  pd_user_login :: "string option"
  pd_draft :: "bool option"
  pd_labels :: "label list"
  pd_assignees :: "string option list option"
  pd_requested_reviewers :: "string option list option"
  pd_commits :: "int option"
  pd_additions :: "int option"
  pd_deletions :: "int option"
  pd_changed_files :: "int option"

record ReviewData =
  rd_id :: int
  rd_user_login :: "string option"
  rd_state :: review_state
  rd_submitted_at :: "string option"
  rd_body :: "string option"
  rd_html_url :: string

text \<open>
  What a call throws: a value with an optional \<open>status\<close> and a message. The paginator
  tells status 422 from everything else.
\<close>

datatype js_error = JsError (err_status: "int option") (err_message: string)

datatype sort_field = Created | Updated

text \<open>
  The parameters of one search call. The query text is
  \<open>baseQuery sortField:<YYYY-MM-DD\<close>; the record keeps its three parts, and names the
  calendar date (the UTC date of the cursor, \<open>toISOString().split("T")[0]\<close>) by its
  day number, the count of whole days since the epoch. The order is always \<open>desc\<close>.
\<close>

record search_request =
  rq_base :: string
  rq_field :: sort_field
  rq_before_day :: int
  rq_sort :: sort_field
  rq_per_page :: nat
  rq_page :: nat

record search_response =
  resp_items :: "GitHubSearchItem list"
  resp_incomplete :: bool

text \<open>
  The search endpoint answers a request with a response or throws. Its first argument
  is the number of search calls the running paginator has made before this one, so an
  endpoint may answer the same request differently from call to call.
\<close>

type_synonym search_endpoint = "nat \<Rightarrow> search_request \<Rightarrow> js_error + search_response"

record api =
  api_search :: search_endpoint
  api_pulls_get :: "string \<Rightarrow> string option \<Rightarrow> int \<Rightarrow> js_error + PullRequestDetail"
  api_list_reviews :: "string \<Rightarrow> string option \<Rightarrow> int \<Rightarrow> js_error + ReviewData list"
  api_get_authenticated :: "js_error + string"

subsection \<open>The logger\<close>

text \<open>
  The logger is a collaborator with four sinks; the model keeps the calls made to it,
  in order. A message is kept with the values the source puts into its text.
\<close>

datatype level = Debug | Info | Warn | Error

datatype message =
  SearchingWithQuery string sort_field int
| SearchIncomplete
| HitSearchLimit
| FetchingPullRequests string
| ProcessingPullRequests nat
| FailedPullRequestDetails string string int string
| FetchedPullRequests nat
| FailedToFetchPullRequests js_error
| FetchingIssues string
| ProcessingIssues nat
| FetchedIssues nat
| FailedToFetchIssues js_error
| FetchingReviews string
| ProcessingReviews nat
| FailedReviewList string string int string
| FetchedReviews nat
| FailedToFetchReviews js_error
| AuthenticatedAs string
| AuthenticationFailed js_error
| StartingFullFetch
| FetchingAllActivities
| SavedAllActivities
| FailedToFetchActivities js_error

type_synonym log_entry = "level \<times> message"

definition warnings :: "log_entry list \<Rightarrow> nat" where
  "warnings log = length (filter (\<lambda>e. fst e = Warn) log)"

subsection \<open>Dates\<close>

text \<open>
  A \<open>Date\<close> is a time value in milliseconds since the epoch, or invalid (\<open>None\<close>): the
  constructor clips to \<open>\<plusminus>8.64e15\<close>. A comparison with an invalid date is false.
  Reading a date from a string is the engine's business: \<open>Date_parse\<close>, a parameter of
  the client's functions, gives the time value of a string or \<open>None\<close>.
\<close>

type_synonym date = "int option"

definition max_time :: int where
  "max_time = 8640000000000000"

definition new_Date :: "int \<Rightarrow> date" where
  "new_Date t = (if - max_time \<le> t \<and> t \<le> max_time then Some t else None)"

definition new_Date_string :: "(string \<Rightarrow> int option) \<Rightarrow> string \<Rightarrow> date" where
  "new_Date_string Date_parse s = (case Date_parse s of None \<Rightarrow> None | Some t \<Rightarrow> new_Date t)"

fun date_lt :: "date \<Rightarrow> date \<Rightarrow> bool" where
  "date_lt (Some a) (Some b) = (a < b)"
| "date_lt _ _ = False"

fun date_le :: "date \<Rightarrow> date \<Rightarrow> bool" where
  "date_le (Some a) (Some b) = (a \<le> b)"
| "date_le _ _ = False"

fun date_minus :: "date \<Rightarrow> int \<Rightarrow> date" where
  "date_minus (Some t) ms = new_Date (t - ms)"
| "date_minus None ms = None"

definition day_ms :: int where
  "day_ms = 24 * 60 * 60 * 1000"

definition oldestDate :: date where
  "oldestDate = Some 1199145600000"

definition maxPages :: nat where
  "maxPages = 10"

subsection \<open>paginateSearch\<close>

text \<open>
  The generator's run is kept as the list of what it did that a consumer can see: the
  calls to the logger and the batches it yielded, in order.
\<close>

datatype event = Logged level message | Yielded "GitHubSearchItem list"

fun yielded :: "event list \<Rightarrow> GitHubSearchItem list list" where
  "yielded [] = []"
| "yielded (Yielded b # es) = b # yielded es"
| "yielded (Logged l m # es) = yielded es"

text \<open>\<open>item[sortField === "created" ? "created_at" : "updated_at"]\<close>\<close>

fun sort_text :: "sort_field \<Rightarrow> GitHubSearchItem \<Rightarrow> string" where
  "sort_text Created item = si_created_at item"
| "sort_text Updated item = si_updated_at item"

definition item_date :: "(string \<Rightarrow> int option) \<Rightarrow> sort_field \<Rightarrow> GitHubSearchItem \<Rightarrow> date" where
  "item_date Date_parse sortField item = new_Date_string Date_parse (sort_text sortField item)"

text \<open>The loop over a page's items that keeps the oldest date seen.\<close>

fun track_oldest :: "(string \<Rightarrow> int option) \<Rightarrow> sort_field \<Rightarrow> GitHubSearchItem list \<Rightarrow> date \<Rightarrow> date" where
  "track_oldest Date_parse sortField [] currentDate = currentDate"
| "track_oldest Date_parse sortField (item # rest) currentDate =
     (let itemDate = item_date Date_parse sortField item
      in track_oldest Date_parse sortField rest
           (if date_lt itemDate currentDate then itemDate else currentDate))"

text \<open>
  The state of the inner loop over the pages of one window. \<open>ws_sizes\<close> is not a
  variable of the source: it records the number of items of every response received,
  so that statements can speak about the pages. \<open>ws_thrown\<close> holds the error that
  leaves the generator, when one does.
\<close>

record window_state =
  ws_page :: nat
  ws_batchResults :: "GitHubSearchItem list"
  ws_currentDate :: date
  ws_hasMore :: bool
  ws_calls :: nat
  ws_sizes :: "nat list"
  ws_events :: "event list"
  ws_thrown :: "js_error option"

function page_loop ::
  "(string \<Rightarrow> int option) \<Rightarrow> search_endpoint \<Rightarrow> search_request \<Rightarrow> window_state \<Rightarrow> window_state" where
  "page_loop Date_parse search rq st =
     (if ws_page st \<le> maxPages then
        (case search (ws_calls st) (rq\<lparr>rq_page := ws_page st\<rparr>) of
           Inl error \<Rightarrow>
             if err_status error = Some 422 then
               st\<lparr>ws_calls := Suc (ws_calls st),
                  ws_events := ws_events st @ [Logged Warn HitSearchLimit],
                  ws_currentDate := date_minus (ws_currentDate st) (24 * 60 * 60 * 1000)\<rparr>
             else st\<lparr>ws_calls := Suc (ws_calls st), ws_thrown := Some error\<rparr>
         | Inr response \<Rightarrow>
             if resp_items response = [] then
               st\<lparr>ws_calls := Suc (ws_calls st),
                  ws_sizes := ws_sizes st @ [0],
                  ws_hasMore := False\<rparr>
             else if resp_incomplete response then
               st\<lparr>ws_calls := Suc (ws_calls st),
                  ws_sizes := ws_sizes st @ [length (resp_items response)],
                  ws_events := ws_events st @ [Logged Warn SearchIncomplete]\<rparr>
             else if length (resp_items response) < 100 then
               st\<lparr>ws_calls := Suc (ws_calls st),
                  ws_sizes := ws_sizes st @ [length (resp_items response)],
                  ws_batchResults := ws_batchResults st @ resp_items response,
                  ws_currentDate :=
                    track_oldest Date_parse (rq_sort rq) (resp_items response)
                      (ws_currentDate st),
                  ws_hasMore := False\<rparr>
             else
               page_loop Date_parse search rq
                 (st\<lparr>ws_calls := Suc (ws_calls st),
                     ws_sizes := ws_sizes st @ [length (resp_items response)],
                     ws_batchResults := ws_batchResults st @ resp_items response,
                     ws_currentDate :=
                       track_oldest Date_parse (rq_sort rq) (resp_items response)
                         (ws_currentDate st),
                     ws_page := Suc (ws_page st)\<rparr>))
      else st)"
  by pat_completeness auto
termination
  by (relation "measure (\<lambda>(Date_parse, search, rq, st). Suc maxPages - ws_page st)") auto

declare page_loop.simps [simp del]

text \<open>
  The state of the outer loop. One turn of it, \<open>window\<close>, builds the query from the
  cursor (which throws a RangeError when the cursor is an invalid date), pages through
  it (\<open>page_loop\<close> from \<open>first_page\<close>), and then (\<open>close_window\<close>) yields the batch when it
  is not empty and decides whether to go on. \<open>pg_attempts\<close> counts the turns; like
  \<open>pg_sizes\<close> it is not a variable of the source.
\<close>

record paginate_state =
  pg_currentDate :: date
  pg_hasMore :: bool
  pg_attempts :: nat
  pg_calls :: nat
  pg_sizes :: "nat list"
  pg_events :: "event list"
  pg_thrown :: "js_error option"

definition range_error :: js_error where
  "range_error = JsError None ''Invalid time value''"

definition window_request :: "string \<Rightarrow> sort_field \<Rightarrow> int \<Rightarrow> search_request" where
  "window_request baseQuery sortField t =
     \<lparr>rq_base = baseQuery, rq_field = sortField, rq_before_day = t div day_ms,
      rq_sort = sortField, rq_per_page = 100, rq_page = 1\<rparr>"

definition first_page :: "string \<Rightarrow> sort_field \<Rightarrow> int \<Rightarrow> paginate_state \<Rightarrow> window_state" where
  "first_page baseQuery sortField t st =
     \<lparr>ws_page = 1, ws_batchResults = [], ws_currentDate = Some t,
      ws_hasMore = True, ws_calls = pg_calls st, ws_sizes = pg_sizes st,
      ws_events = pg_events st
        @ [Logged Debug (SearchingWithQuery baseQuery sortField (t div day_ms))],
      ws_thrown = None\<rparr>"

definition close_window :: "window_state \<Rightarrow> paginate_state \<Rightarrow> paginate_state" where
  "close_window w st =
     (case ws_thrown w of
        Some error \<Rightarrow>
          st\<lparr>pg_currentDate := ws_currentDate w, pg_hasMore := False,
             pg_attempts := Suc (pg_attempts st), pg_calls := ws_calls w,
             pg_sizes := ws_sizes w, pg_events := ws_events w,
             pg_thrown := Some error\<rparr>
      | None \<Rightarrow>
          (let hasMore = (ws_hasMore w \<and>
                  \<not> (date_le (ws_currentDate w) oldestDate \<or> ws_batchResults w = []))
           in st\<lparr>pg_currentDate :=
                     (if hasMore then date_minus (ws_currentDate w) 1000
                      else ws_currentDate w),
                   pg_hasMore := hasMore,
                   pg_attempts := Suc (pg_attempts st),
                   pg_calls := ws_calls w,
                   pg_sizes := ws_sizes w,
                   pg_events := ws_events w
                     @ (if ws_batchResults w \<noteq> [] then [Yielded (ws_batchResults w)]
                        else [])\<rparr>))"

definition window ::
  "(string \<Rightarrow> int option) \<Rightarrow> search_endpoint \<Rightarrow> string \<Rightarrow> sort_field \<Rightarrow> paginate_state \<Rightarrow> paginate_state" where
  "window Date_parse search baseQuery sortField st =
     (case pg_currentDate st of
        None \<Rightarrow>
          st\<lparr>pg_attempts := Suc (pg_attempts st), pg_hasMore := False,
             pg_thrown := Some range_error\<rparr>
      | Some t \<Rightarrow>
          close_window
            (page_loop Date_parse search (window_request baseQuery sortField t)
               (first_page baseQuery sortField t st))
            st)"

text \<open>
  The measure of the outer loop: the whole seconds between the cursor and the floor.
  The lemmas that follow show that a turn of the loop that goes on has moved the cursor
  down, which is what the loop's termination rests on.
\<close>

fun cursor_measure :: "date \<Rightarrow> nat" where
  "cursor_measure None = 0"
| "cursor_measure (Some t) = Suc (nat ((t - 1199145600000) div 1000 + 1))"

fun older_or_invalid :: "date \<Rightarrow> date \<Rightarrow> bool" where
  "older_or_invalid None c = True"
| "older_or_invalid (Some a) None = False"
| "older_or_invalid (Some a) (Some b) = (a \<le> b)"

lemma older_or_invalid_refl: "older_or_invalid c c"
  by (cases c) simp_all

lemma older_or_invalid_trans:
  "older_or_invalid a b \<Longrightarrow> older_or_invalid b c \<Longrightarrow> older_or_invalid a c"
  by (cases a; cases b; cases c) simp_all

lemma date_minus_older: "0 \<le> ms \<Longrightarrow> older_or_invalid (date_minus c ms) c"
  by (cases c) (simp_all add: new_Date_def)

lemma track_oldest_older:
  "older_or_invalid (track_oldest Date_parse sortField xs c) c"
proof (induction xs arbitrary: c)
  case Nil
  show ?case by (simp add: older_or_invalid_refl)
next
  case (Cons x xs)
  define d where "d = item_date Date_parse sortField x"
  define c' where "c' = (if date_lt d c then d else c)"
  have step: "older_or_invalid c' c"
    unfolding c'_def by (cases d; cases c) (simp_all add: older_or_invalid_refl)
  have "older_or_invalid (track_oldest Date_parse sortField xs c') c'"
    by (rule Cons.IH)
  then have "older_or_invalid (track_oldest Date_parse sortField xs c') c"
    using step by (rule older_or_invalid_trans)
  then show ?case
    unfolding c'_def d_def by (simp add: Let_def)
qed

lemma page_loop_older:
  "older_or_invalid (ws_currentDate (page_loop Date_parse search rq st)) (ws_currentDate st)"
proof (induction Date_parse search rq st rule: page_loop.induct)
  case (1 Date_parse search rq st)
  show ?case
  proof (cases "ws_page st \<le> maxPages")
    case False
    then show ?thesis by (simp add: page_loop.simps [of _ _ _ st] older_or_invalid_refl)
  next
    case True
    show ?thesis
    proof (cases "search (ws_calls st) (rq\<lparr>rq_page := ws_page st\<rparr>)")
      case (Inl error)
      with True show ?thesis
        by (simp add: page_loop.simps [of _ _ _ st] older_or_invalid_refl date_minus_older)
    next
      case (Inr response)
      show ?thesis
      proof (cases "resp_items response \<noteq> [] \<and> \<not> resp_incomplete response
                    \<and> \<not> length (resp_items response) < 100")
        case False
        with True Inr show ?thesis
          by (auto simp: page_loop.simps [of _ _ _ st] older_or_invalid_refl track_oldest_older)
      next
        case more: True
        have "older_or_invalid
                (ws_currentDate (page_loop Date_parse search rq
                   (st\<lparr>ws_calls := Suc (ws_calls st),
                       ws_sizes := ws_sizes st @ [length (resp_items response)],
                       ws_batchResults := ws_batchResults st @ resp_items response,
                       ws_currentDate :=
                         track_oldest Date_parse (rq_sort rq) (resp_items response)
                           (ws_currentDate st),
                       ws_page := Suc (ws_page st)\<rparr>)))
                (track_oldest Date_parse (rq_sort rq) (resp_items response) (ws_currentDate st))"
          using "1.IH" [OF True Inr] more by simp
        then have "older_or_invalid
                (ws_currentDate (page_loop Date_parse search rq
                   (st\<lparr>ws_calls := Suc (ws_calls st),
                       ws_sizes := ws_sizes st @ [length (resp_items response)],
                       ws_batchResults := ws_batchResults st @ resp_items response,
                       ws_currentDate :=
                         track_oldest Date_parse (rq_sort rq) (resp_items response)
                           (ws_currentDate st),
                       ws_page := Suc (ws_page st)\<rparr>)))
                (ws_currentDate st)"
          using track_oldest_older older_or_invalid_trans by blast
        with True Inr more show ?thesis by (simp add: page_loop.simps [of _ _ _ st])
      qed
    qed
  qed
qed

lemma close_window_decreases:
  assumes "pg_hasMore (close_window w st)" and "older_or_invalid (ws_currentDate w) (Some t)"
  shows "cursor_measure (pg_currentDate (close_window w st)) < cursor_measure (Some t)"
proof -
  from assms(1) have nothrow: "ws_thrown w = None"
    by (cases "ws_thrown w") (simp_all add: close_window_def)
  with assms(1) have more: "\<not> date_le (ws_currentDate w) oldestDate"
    and cur: "pg_currentDate (close_window w st) = date_minus (ws_currentDate w) 1000"
    by (simp_all add: close_window_def Let_def)
  show ?thesis
  proof (cases "ws_currentDate w")
    case None
    with cur show ?thesis by simp
  next
    case (Some t')
    with assms(2) more have le: "t' \<le> t" and gt: "1199145600000 < t'"
      by (simp_all add: oldestDate_def)
    have "cursor_measure (new_Date (t' - 1000)) \<le> Suc (nat ((t' - 1000 - 1199145600000) div 1000 + 1))"
      by (simp add: new_Date_def)
    also have "(t' - 1000 - 1199145600000) div 1000 + 1 = (t' - 1199145600000) div 1000"
      by simp
    also have "Suc (nat ((t' - 1199145600000) div 1000)) < Suc (nat ((t - 1199145600000) div 1000 + 1))"
    proof -
      have "0 \<le> (t' - 1199145600000) div 1000" using gt by simp
      moreover have "(t' - 1199145600000) div 1000 \<le> (t - 1199145600000) div 1000"
        using le by (simp add: zdiv_mono1)
      ultimately show ?thesis by simp
    qed
    finally show ?thesis using cur Some by simp
  qed
qed

lemma window_decreases:
  assumes "pg_hasMore (window Date_parse search baseQuery sortField st)"
  shows "cursor_measure (pg_currentDate (window Date_parse search baseQuery sortField st))
           < cursor_measure (pg_currentDate st)"
proof (cases "pg_currentDate st")
  case None
  with assms show ?thesis by (simp add: window_def)
next
  case (Some t)
  let ?w = "page_loop Date_parse search (window_request baseQuery sortField t)
              (first_page baseQuery sortField t st)"
  have "older_or_invalid (ws_currentDate ?w) (ws_currentDate (first_page baseQuery sortField t st))"
    by (rule page_loop_older)
  then have older: "older_or_invalid (ws_currentDate ?w) (Some t)"
    by (simp add: first_page_def)
  from assms Some have "pg_hasMore (close_window ?w st)"
    by (simp add: window_def)
  from close_window_decreases [OF this older] Some show ?thesis
    by (simp add: window_def)
qed

function outer_loop ::
  "(string \<Rightarrow> int option) \<Rightarrow> search_endpoint \<Rightarrow> string \<Rightarrow> sort_field \<Rightarrow> paginate_state \<Rightarrow> paginate_state" where
  "outer_loop Date_parse search baseQuery sortField st =
     (if pg_hasMore st then
        outer_loop Date_parse search baseQuery sortField
          (window Date_parse search baseQuery sortField st)
      else st)"
  by pat_completeness auto
termination
proof (relation "measure (\<lambda>(Date_parse, search, baseQuery, sortField, st).
         if pg_hasMore st then Suc (cursor_measure (pg_currentDate st)) else 0)")
  show "wf (measure (\<lambda>(Date_parse, search, baseQuery, sortField, st).
         if pg_hasMore st then Suc (cursor_measure (pg_currentDate st)) else 0))"
    by simp
next
  fix Date_parse :: "string \<Rightarrow> int option" and search :: search_endpoint
    and baseQuery :: string and sortField :: sort_field and st :: paginate_state
  assume "pg_hasMore st"
  then show "((Date_parse, search, baseQuery, sortField,
                window Date_parse search baseQuery sortField st),
               (Date_parse, search, baseQuery, sortField, st))
             \<in> measure (\<lambda>(Date_parse, search, baseQuery, sortField, st).
                  if pg_hasMore st then Suc (cursor_measure (pg_currentDate st)) else 0)"
    using window_decreases [of Date_parse search baseQuery sortField st] by simp
qed

declare outer_loop.simps [simp del]

text \<open>\<open>now\<close> is the time value of \<open>new Date()\<close> when the generator starts.\<close>

definition paginateSearch ::
  "(string \<Rightarrow> int option) \<Rightarrow> search_endpoint \<Rightarrow> string \<Rightarrow> sort_field \<Rightarrow> int \<Rightarrow> paginate_state" where
  "paginateSearch Date_parse search baseQuery sortField now =
     outer_loop Date_parse search baseQuery sortField
       \<lparr>pg_currentDate = new_Date now, pg_hasMore = True, pg_attempts = 0, pg_calls = 0,
        pg_sizes = [], pg_events = [], pg_thrown = None\<rparr>"

subsection \<open>Small JavaScript idioms\<close>

text \<open>
  \<open>s || undefined\<close>, \<open>s || d\<close> and \<open>n || 0\<close>: the empty string, \<open>null\<close> and \<open>undefined\<close> are
  falsy. \<open>`${x}`\<close> prints an undefined \<open>x\<close> as the text \<open>undefined\<close>.
\<close>

definition truthy :: "string option \<Rightarrow> string option" where
  "truthy s = (case s of None \<Rightarrow> None | Some x \<Rightarrow> if x = [] then None else Some x)"

definition or_else :: "string option \<Rightarrow> string \<Rightarrow> string" where
  "or_else s d = (case truthy s of None \<Rightarrow> d | Some x \<Rightarrow> x)"

definition num_or_zero :: "int option \<Rightarrow> int" where
  "num_or_zero n = (case n of None \<Rightarrow> 0 | Some k \<Rightarrow> k)"

definition bool_or_false :: "bool option \<Rightarrow> bool" where
  "bool_or_false b = (case b of None \<Rightarrow> False | Some x \<Rightarrow> x)"

definition template_text :: "string option \<Rightarrow> string" where
  "template_text s = (case s of None \<Rightarrow> ''undefined'' | Some x \<Rightarrow> x)"

fun split_on :: "char \<Rightarrow> string \<Rightarrow> string list" where
  "split_on c [] = [[]]"
| "split_on c (x # xs) =
     (if x = c then [] # split_on c xs
      else (case split_on c xs of
              [] \<Rightarrow> [[x]]
            | s # ss \<Rightarrow> (x # s) # ss))"

fun includes_text :: "string \<Rightarrow> string \<Rightarrow> bool" where
  "includes_text [] sub = (sub = [])"
| "includes_text (x # xs) sub = (take (length sub) (x # xs) = sub \<or> includes_text xs sub)"

text \<open>
  \<open>const [owner, repo] = url.split("/").slice(-2)\<close>: the last two segments. A URL
  without a slash has one segment, and then \<open>repo\<close> is undefined.
\<close>

definition owner_repo :: "string \<Rightarrow> string \<times> string option" where
  "owner_repo url =
     (let parts = split_on (CHR ''/'') url;
          last2 = drop (length parts - 2) parts
      in case last2 of
           [] \<Rightarrow> ([], None)
         | [a] \<Rightarrow> (a, None)
         | a # b # rest \<Rightarrow> (a, Some b))"

text \<open>
  The repository descriptor the three fetches build. \<open>types.ts\<close> gives \<open>name\<close> the type
  \<open>string\<close>; for an undefined \<open>repo\<close> the model puts the text \<open>undefined\<close>, as the two
  template literals beside it do.
\<close>

definition repository_of :: "string \<Rightarrow> repository" where
  "repository_of repository_url =
     (let (owner, repo) = owner_repo repository_url
      in \<lparr>repo_name = template_text repo,
          repo_fullName = owner @ ''/'' @ template_text repo,
          repo_owner = owner,
          repo_url = ''https://github.com/'' @ owner @ ''/'' @ template_text repo,
          repo_private = includes_text repository_url ''private''\<rparr>)"

fun label_text :: "label \<Rightarrow> string" where
  "label_text (LabelString s) = s"
| "label_text (LabelObject n) = or_else n []"


definition logins_nonempty :: "string option list option \<Rightarrow> string list" where
  "logins_nonempty users =
     (case users of None \<Rightarrow> [] | Some us \<Rightarrow> filter (\<lambda>s. s \<noteq> []) (map (\<lambda>u. or_else u []) us))"

subsection \<open>fetchPullRequests\<close>

definition to_pull_request :: "string \<Rightarrow> GitHubSearchItem \<Rightarrow> PullRequestDetail \<Rightarrow> PullRequest" where
  "to_pull_request user item d =
     \<lparr>pr_id = pd_id d,
      pr_number = pd_number d,
      pr_title = pd_title d,
      pr_url = pd_url d,
      pr_htmlUrl = pd_html_url d,
      pr_state = pd_state d,
      pr_createdAt = pd_created_at d,
      pr_updatedAt = pd_updated_at d,
      pr_closedAt = truthy (pd_closed_at d),
      pr_mergedAt = truthy (pd_merged_at d),
      pr_repository = repository_of (si_repository_url item),
      pr_author = or_else (pd_user_login d) user,
      pr_draft = bool_or_false (pd_draft d),
      pr_labels = map label_text (pd_labels d),
      pr_assignees = logins_nonempty (pd_assignees d),
      pr_reviewers = logins_nonempty (pd_requested_reviewers d),
      pr_commits = num_or_zero (pd_commits d),
      pr_additions = num_or_zero (pd_additions d),
      pr_deletions = num_or_zero (pd_deletions d),
      pr_changedFiles = num_or_zero (pd_changed_files d)\<rparr>"

text \<open>
  The body of the loop over a batch: the detail lookup for one item, inside its own
  \<open>try\<close>. A lookup that throws gives the warning that is logged instead of a record.
\<close>

definition pull_request_of_item :: "api \<Rightarrow> string \<Rightarrow> GitHubSearchItem \<Rightarrow> log_entry + PullRequest" where
  "pull_request_of_item a user item =
     (let (owner, repo) = owner_repo (si_repository_url item)
      in case api_pulls_get a owner repo (si_number item) of
           Inr prDetail \<Rightarrow> Inr (to_pull_request user item prDetail)
         | Inl error \<Rightarrow>
             Inl (Warn, FailedPullRequestDetails owner (template_text repo) (si_number item)
                          (err_message error)))"

fun process_pull_requests ::
  "api \<Rightarrow> string \<Rightarrow> GitHubSearchItem list \<Rightarrow> PullRequest list \<times> log_entry list
     \<Rightarrow> PullRequest list \<times> log_entry list" where
  "process_pull_requests a user [] acc = acc"
| "process_pull_requests a user (item # rest) (prs, lg) =
     (case pull_request_of_item a user item of
        Inr pr \<Rightarrow> process_pull_requests a user rest (prs @ [pr], lg)
      | Inl warning \<Rightarrow> process_pull_requests a user rest (prs, lg @ [warning]))"

text \<open>
  The \<open>for await\<close> loop over the generator: the generator's own calls to the logger are
  kept in their place, and each yielded batch is processed where it was yielded.
\<close>

fun consume_pull_requests ::
  "api \<Rightarrow> string \<Rightarrow> event list \<Rightarrow> PullRequest list \<times> log_entry list
     \<Rightarrow> PullRequest list \<times> log_entry list" where
  "consume_pull_requests a user [] acc = acc"
| "consume_pull_requests a user (Logged l m # es) (prs, lg) =
     consume_pull_requests a user es (prs, lg @ [(l, m)])"
| "consume_pull_requests a user (Yielded batch # es) (prs, lg) =
     consume_pull_requests a user es
       (process_pull_requests a user batch
          (prs, lg @ [(Info, ProcessingPullRequests (length batch))]))"

definition fetchPullRequests ::
  "(string \<Rightarrow> int option) \<Rightarrow> api \<Rightarrow> string \<Rightarrow> int
     \<Rightarrow> (js_error + PullRequest list) \<times> log_entry list" where
  "fetchPullRequests Date_parse a user now =
     (let run = paginateSearch Date_parse (api_search a)
                  (''author:'' @ user @ '' type:pr'') Created now;
          (prs, lg) =
            consume_pull_requests a user (pg_events run)
              ([], [(Info, FetchingPullRequests user)])
      in case pg_thrown run of
           None \<Rightarrow> (Inr prs, lg @ [(Info, FetchedPullRequests (length prs))])
         | Some error \<Rightarrow>
             (Inl (JsError None (''Failed to fetch pull requests: '' @ err_message error)),
              lg @ [(Error, FailedToFetchPullRequests error)]))"

subsection \<open>fetchIssues\<close>




subsection \<open>fetchReviews\<close>






subsection \<open>testConnection\<close>


subsection \<open>Notions for stating what a fetch returns\<close>

fun rights :: "('a + 'b) list \<Rightarrow> 'b list" where
  "rights [] = []"
| "rights (Inl a # xs) = rights xs"
| "rights (Inr b # xs) = b # rights xs"

fun lefts :: "('a + 'b) list \<Rightarrow> 'a list" where
  "lefts [] = []"
| "lefts (Inl a # xs) = a # lefts xs"
| "lefts (Inr b # xs) = lefts xs"

fun logged :: "event list \<Rightarrow> log_entry list" where
  "logged [] = []"
| "logged (Logged l m # es) = (l, m) # logged es"
| "logged (Yielded b # es) = logged es"

text \<open>The log entries that report a failed detail lookup of \<open>fetchPullRequests\<close>.\<close>

definition is_detail_warning :: "log_entry \<Rightarrow> bool" where
  "is_detail_warning entry =
     (case snd entry of FailedPullRequestDetails owner repo n m \<Rightarrow> True | _ \<Rightarrow> False)"

section \<open>Mock endpoints and example values for the client\<close>

text \<open>
  An endpoint that throws \<open>e\<close> at the paginator's first search call and answers every
  later call as \<open>search\<close> does.
\<close>

definition reject_first :: "js_error \<Rightarrow> search_endpoint \<Rightarrow> search_endpoint" where
  "reject_first e search n rq = (if n = 0 then Inl e else search n rq)"

text \<open>
  An endpoint that holds a list of items, newest first, and answers as the platform
  does: the items dated before the start of the query's day, cut into pages.
\<close>

definition dated_before ::
  "(string \<Rightarrow> int option) \<Rightarrow> sort_field \<Rightarrow> int \<Rightarrow> GitHubSearchItem \<Rightarrow> bool" where
  "dated_before Date_parse sortField day item =
     (case Date_parse (sort_text sortField item) of
        None \<Rightarrow> False
      | Some t \<Rightarrow> t < day * day_ms)"

definition held_search :: "(string \<Rightarrow> int option) \<Rightarrow> GitHubSearchItem list \<Rightarrow> search_endpoint" where
  "held_search Date_parse held n rq =
     Inr \<lparr>resp_items =
            take (rq_per_page rq)
              (drop (rq_per_page rq * (rq_page rq - 1))
                 (filter (\<lambda>item. dated_before Date_parse (rq_field rq) (rq_before_day rq) item)
                    held)),
          resp_incomplete = False\<rparr>"

text \<open>
  A reading of the timestamps GitHub writes, \<open>YYYY-MM-DDTHH:MM:SSZ\<close>, for the worked
  examples: the days before the date come from the civil calendar.
\<close>

definition digit_value :: "char \<Rightarrow> int option" where
  "digit_value c =
     (let n = (of_char c :: nat) in if 48 \<le> n \<and> n \<le> 57 then Some (int n - 48) else None)"

fun digits_value :: "string \<Rightarrow> int \<Rightarrow> int option" where
  "digits_value [] acc = Some acc"
| "digits_value (c # cs) acc =
     (case digit_value c of None \<Rightarrow> None | Some d \<Rightarrow> digits_value cs (10 * acc + d))"

definition days_from_civil :: "int \<Rightarrow> int \<Rightarrow> int \<Rightarrow> int" where
  "days_from_civil y m d =
     (let y' = (if m \<le> 2 then y - 1 else y);
          era = y' div 400;
          yoe = y' - era * 400;
          doy = (153 * (if m > 2 then m - 3 else m + 9) + 2) div 5 + d - 1;
          doe = yoe * 365 + yoe div 4 - yoe div 100 + doy
      in era * 146097 + doe - 719468)"

definition iso_parse :: "string \<Rightarrow> int option" where
  "iso_parse s =
     (if length s = 20 \<and> s ! 4 = CHR ''-'' \<and> s ! 7 = CHR ''-'' \<and> s ! 10 = CHR ''T''
         \<and> s ! 13 = CHR '':'' \<and> s ! 16 = CHR '':'' \<and> s ! 19 = CHR ''Z''
      then
        (case (digits_value (take 4 s) 0, digits_value (take 2 (drop 5 s)) 0,
               digits_value (take 2 (drop 8 s)) 0, digits_value (take 2 (drop 11 s)) 0,
               digits_value (take 2 (drop 14 s)) 0, digits_value (take 2 (drop 17 s)) 0) of
           (Some y, Some mo, Some d, Some h, Some mi, Some se) \<Rightarrow>
             if 1 \<le> mo \<and> mo \<le> 12 \<and> 1 \<le> d \<and> d \<le> 31 \<and> h < 24 \<and> mi < 60 \<and> se < 60
             then Some ((((days_from_civil y mo d * 24 + h) * 60 + mi) * 60 + se) * 1000)
             else None
         | _ \<Rightarrow> None)
      else None)"

definition example_now :: int where
  "example_now = 1700000000000"

definition digit_char :: "nat \<Rightarrow> char" where
  "digit_char n = char_of (48 + n)"

text \<open>
  The \<open>k\<close>-th of 250 items, one second apart, the newest first: item \<open>k\<close> was created on
  2023-11-01 at 12:00:00 plus \<open>249 - k\<close> seconds.
\<close>

definition example_created_at :: "nat \<Rightarrow> string" where
  "example_created_at k =
     ''2023-11-01T12:0'' @ [digit_char ((249 - k) div 60)] @ '':''
       @ [digit_char ((249 - k) mod 60 div 10), digit_char ((249 - k) mod 60 mod 10)] @ ''Z''"

definition example_search_item :: "nat \<Rightarrow> GitHubSearchItem" where
  "example_search_item k =
     \<lparr>si_id = 1000 + int k,
      si_number = 1 + int k,
      si_title = ''Item'',
      si_url = ''https://api.github.com/repos/owner/repo/issues/1'',
      si_html_url = ''https://github.com/owner/repo/issues/1'',
      si_state = Open,
      si_created_at = example_created_at k,
      si_updated_at = example_created_at k,
      si_closed_at = None,
      si_repository_url = ''https://api.github.com/repos/owner/repo'',
      si_user_login = Some ''testuser'',
      si_labels = [],
      si_assignees = Some [],
      si_comments = Some 0,
      si_body = None\<rparr>"

definition example_items :: "GitHubSearchItem list" where
  "example_items = map example_search_item [0..<250]"

text \<open>
  Five search items, and an API whose detail lookup throws for the third of them
  (number 3) and answers for the others, and whose review list holds two reviews for
  number 2, one of them by the user, throws for number 4 and is empty for the others.
\<close>

definition example_detail :: "int \<Rightarrow> PullRequestDetail" where
  "example_detail n =
     \<lparr>pd_id = 1000 + n - 1,
      pd_number = n,
      pd_title = ''Item'',
      pd_url = ''https://api.github.com/repos/owner/repo/pulls/1'',
      pd_html_url = ''https://github.com/owner/repo/pull/1'',
      pd_state = Open,
      pd_created_at = ''2023-11-01T12:00:00Z'',
      pd_updated_at = ''2023-11-01T12:00:00Z'',
      pd_closed_at = None,
      pd_merged_at = None,
      pd_user_login = Some ''testuser'',
      pd_draft = Some True,
      pd_labels = [LabelObject (Some ''bug'')],
      pd_assignees = Some [],
      pd_requested_reviewers = Some [Some ''alice'', None],
      pd_commits = Some n,
      pd_additions = Some (10 * n),
      pd_deletions = None,
      pd_changed_files = Some 2\<rparr>"

definition example_review_data :: "string \<Rightarrow> int \<Rightarrow> ReviewData" where
  "example_review_data login n =
     \<lparr>rd_id = n,
      rd_user_login = Some login,
      rd_state = APPROVED,
      rd_submitted_at = Some ''2023-11-02T09:00:00Z'',
      rd_body = Some ''Looks good'',
      rd_html_url = ''https://github.com/owner/repo/pull/2#pullrequestreview-1''\<rparr>"

definition five_items :: "GitHubSearchItem list" where
  "five_items = map example_search_item [0, 1, 2, 3, 4]"

definition five_items_api :: api where
  "five_items_api =
     \<lparr>api_search = held_search iso_parse five_items,
      api_pulls_get = (\<lambda>owner repo n.
         if n = 3 then Inl (JsError (Some 500) ''Server Error'') else Inr (example_detail n)),
      api_list_reviews = (\<lambda>owner repo n.
         if n = 2 then Inr [example_review_data ''testuser'' 501, example_review_data ''someone'' 502]
         else if n = 4 then Inl (JsError (Some 500) ''Server Error'')
         else Inr []),
      api_get_authenticated = Inr ''testuser''\<rparr>"

text \<open>The record that \<open>fetchPullRequests\<close> is to build from the detail of number \<open>n\<close>.\<close>

definition expected_pull_request :: "int \<Rightarrow> PullRequest" where
  "expected_pull_request n =
     \<lparr>pr_id = 1000 + n - 1, pr_number = n, pr_title = ''Item'',
      pr_url = ''https://api.github.com/repos/owner/repo/pulls/1'',
      pr_htmlUrl = ''https://github.com/owner/repo/pull/1'',
      pr_state = Open,
      pr_createdAt = ''2023-11-01T12:00:00Z'',
      pr_updatedAt = ''2023-11-01T12:00:00Z'',
      pr_closedAt = None, pr_mergedAt = None,
      pr_repository =
        \<lparr>repo_name = ''repo'', repo_fullName = ''owner/repo'', repo_owner = ''owner'',
         repo_url = ''https://github.com/owner/repo'', repo_private = False\<rparr>,
      pr_author = ''testuser'', pr_draft = True,
      pr_labels = [''bug''], pr_assignees = [], pr_reviewers = [''alice''],
      pr_commits = n, pr_additions = 10 * n, pr_deletions = 0, pr_changedFiles = 2\<rparr>"

text \<open>
  A search endpoint that answers the first call with a full page of a hundred items,
  the second with status 422 and every later one with status 500; and the API of the
  five items with this endpoint in place of its own.
\<close>

definition breaking_search :: search_endpoint where
  "breaking_search n rq =
     (if n = 0 then Inr \<lparr>resp_items = take 100 example_items, resp_incomplete = False\<rparr>
      else if n = 1 then Inl (JsError (Some 422) ''Validation Failed'')
      else Inl (JsError (Some 500) ''Server Error''))"

definition breaking_api :: api where
  "breaking_api = five_items_api\<lparr>api_search := breaking_search\<rparr>"

section \<open>GitHubActivityTracker (tracker.ts)\<close>







subsection \<open>Example collaborators\<close>




section \<open>The JSON backend: what is written is what is read\<close>

lemma field_append:
  "field (xs @ ys) k = (case field xs k of None \<Rightarrow> field ys k | Some v \<Rightarrow> Some v)"
  by (induction xs) auto

lemma field_opt_field:
  "field (opt_field k v) k' = (if k = k' then map_option JStr v else None)"
  by (cases v) (auto simp: opt_field_def)

lemma those_list_map_comp:
  "(\<And>x. g (f x) = Some x) \<Longrightarrow> those_list (map (g \<circ> f) xs) = Some xs"
  by (induction xs) auto

lemma those_list_json_str: "those_list (map (json_str \<circ> JStr) xs) = Some xs"
  by (rule those_list_map_comp) simp

lemma parse_repository_stringify:
  "parse_repository (stringify_repository r) = Some r"
  by (simp add: stringify_repository_def get_str_def get_bool_def)

lemma parse_pull_request_stringify:
  "parse_pull_request (stringify_pull_request p) = Some p"
  by (cases "pr_state p"; cases "pr_closedAt p"; cases "pr_mergedAt p")
     (simp_all add: stringify_pull_request_def get_str_def get_num_def get_bool_def
       get_opt_str_def get_str_array_def get_repository_def parse_state_def str_array_def
       field_append field_opt_field those_list_json_str parse_repository_stringify)

lemma parse_issue_stringify:
  "parse_issue (stringify_issue p) = Some p"
  by (cases "iss_state p"; cases "iss_closedAt p"; cases "iss_body p")
     (simp_all add: stringify_issue_def get_str_def get_num_def get_bool_def
       get_opt_str_def get_str_array_def get_repository_def parse_state_def str_array_def
       field_append field_opt_field those_list_json_str parse_repository_stringify)

lemma parse_review_stringify:
  "parse_review (stringify_review p) = Some p"
  by (cases "rv_state p"; cases "rv_body p")
     (simp_all add: stringify_review_def get_str_def get_num_def get_bool_def
       get_opt_str_def get_repository_def parse_review_state_def
       field_append field_opt_field parse_repository_stringify)

lemma parse_metadata_stringify:
  "parse_metadata (stringify_metadata m) = Some m"
  by (simp add: stringify_metadata_def get_str_def get_num_def)

lemma parse_activity_stringify:
  "parse_activity (stringify_activity d) = Some d"
  by (simp add: stringify_activity_def get_array_def those_list_map_comp
      parse_pull_request_stringify parse_issue_stringify parse_review_stringify
      parse_metadata_stringify)

lemma json_load_save: "json_load (json_save d f) = Inr (Some d)"
  by (simp add: json_load_def json_save_def parse_activity_stringify)

lemma json_load_written:
  "json_load (Some (JsonText (stringify_activity d))) = Inr (Some d)"
  by (simp add: json_load_def parse_activity_stringify)

lemma json_load_absent: "json_load None = Inr None"
  by (simp add: json_load_def)

lemma json_append_absent:
  "json_load f = Inr None \<Longrightarrow>
   json_append now its f = Inr (json_save (set_new_items its (empty_activity now)) f)"
  by (simp add: json_append_def)

lemma json_append_existing:
  "json_load f = Inr (Some d) \<Longrightarrow>
   json_append now its f = Inr (json_save (merge_items now its d) f)"
  by (simp add: json_append_def)

lemma collection_ids_set_new_items:
  "collection_ids (kind_of its) (set_new_items its d) = item_ids its"
  by (cases its) simp_all

lemma collection_ids_merge_items:
  "collection_ids (kind_of its) (merge_items now its d) =
     collection_ids (kind_of its) d
     @ filter (\<lambda>k. k \<notin> set (collection_ids (kind_of its) d)) (item_ids its)"
  by (cases its) (simp_all add: Let_def filter_map comp_def)

section \<open>Claims about the JSON backend's append\<close>

text \<open>
  C8. Against a store in which nothing has been saved, \<open>append("issues", [x])\<close> writes a
  snapshot that loads as: issues \<open>[x]\<close>, \<open>totalIssues\<close> 1, no pull requests and
  \<open>totalPullRequests\<close> 0 (and no reviews, \<open>totalReviews\<close> 0, the user name empty, the time
  that of the call).
\<close>

theorem append_issue_to_empty_store:
  "\<exists>f'. json_append now (IssueItems [x]) None = Inr f' \<and>
        json_load f' =
          Inr (Some \<lparr>pullRequests = [], issues = [x], reviews = [],
                     metadata = \<lparr>lastUpdated = now, username = [],
                                 totalPullRequests = 0, totalIssues = 1,
                                 totalReviews = 0\<rparr>\<rparr>)"
  by (simp add: json_append_absent json_load_absent json_load_save empty_activity_def)

lemma count_list_append: "count_list (xs @ ys) k = count_list xs k + count_list ys k"
  by (induction xs) auto

lemma count_list_filter: "P k \<Longrightarrow> count_list (filter P xs) k = count_list xs k"
  by (induction xs) auto

lemma count_list_ge1: "k \<in> set xs \<Longrightarrow> 1 \<le> count_list xs k"
  by (induction xs) auto

lemma count_list_two:
  "i < j \<Longrightarrow> j < length xs \<Longrightarrow> xs ! i = xs ! j \<Longrightarrow> 2 \<le> count_list xs (xs ! i)"
proof (induction xs arbitrary: i j)
  case Nil
  then show ?case by simp
next
  case (Cons x xs)
  show ?case
  proof (cases i)
    case 0
    with Cons.prems obtain j' where j: "j = Suc j'" "j' < length xs" by (cases j) auto
    with 0 Cons.prems have "x = xs ! j'" by simp
    with j have "x \<in> set xs" by simp
    then have "1 \<le> count_list xs x" by (rule count_list_ge1)
    with 0 show ?thesis by simp
  next
    case (Suc i')
    with Cons.prems obtain j' where j: "j = Suc j'" "i' < j'" "j' < length xs" by (cases j) auto
    with Suc Cons.prems have "xs ! i' = xs ! j'" by simp
    with j Cons.IH have "2 \<le> count_list xs (xs ! i')" by blast
    with Suc show ?thesis by simp
  qed
qed

text \<open>
  C10. \<open>append\<close> of the JSON backend filters the new items against the stored ids only.
  When two entries of one call's list share an id that the store does not hold (or when
  the store is empty), both are written: the persisted collection is the stored
  collection followed by every item whose id was not stored, and holds that id at
  least twice.
\<close>

theorem append_keeps_repeated_new_ids:
  assumes load: "json_load f = Inr stored"
    and ij: "i < j" "j < length (item_ids its)"
    and same: "item_ids its ! i = item_ids its ! j"
    and fresh: "item_ids its ! i \<notin> set (stored_ids (kind_of its) stored)"
  shows "\<exists>f' d'. json_append now its f = Inr f' \<and> json_load f' = Inr (Some d') \<and>
           collection_ids (kind_of its) d' =
             stored_ids (kind_of its) stored
             @ filter (\<lambda>k. k \<notin> set (stored_ids (kind_of its) stored)) (item_ids its) \<and>
           2 \<le> count_list (collection_ids (kind_of its) d') (item_ids its ! i)"
proof -
  let ?k = "item_ids its ! i"
  let ?old = "stored_ids (kind_of its) stored"
  have two: "2 \<le> count_list (item_ids its) ?k"
    using ij same by (rule count_list_two)
  have kept: "2 \<le> count_list (?old @ filter (\<lambda>k. k \<notin> set ?old) (item_ids its)) ?k"
    using two fresh by (simp add: count_list_append count_list_filter)
  show ?thesis
  proof (cases stored)
    case None
    then have "json_append now its f = Inr (json_save (set_new_items its (empty_activity now)) f)"
      using load by (simp add: json_append_absent)
    moreover have "collection_ids (kind_of its) (set_new_items its (empty_activity now)) =
        ?old @ filter (\<lambda>k. k \<notin> set ?old) (item_ids its)"
      using None by (simp add: collection_ids_set_new_items stored_ids_def)
    ultimately show ?thesis
      using kept
      by (intro exI [of _ "json_save (set_new_items its (empty_activity now)) f"]
            exI [of _ "set_new_items its (empty_activity now)"])
         (simp add: json_load_save)
  next
    case (Some d)
    then have "json_append now its f = Inr (json_save (merge_items now its d) f)"
      using load by (simp add: json_append_existing)
    moreover have "collection_ids (kind_of its) (merge_items now its d) =
        ?old @ filter (\<lambda>k. k \<notin> set ?old) (item_ids its)"
      using Some by (simp add: collection_ids_merge_items stored_ids_def)
    ultimately show ?thesis
      using kept
      by (intro exI [of _ "json_save (merge_items now its d) f"]
            exI [of _ "merge_items now its d"])
         (simp add: json_load_save)
  qed
qed

theorem append_keeps_repeated_new_ids_witness:
  "json_append example_clock (IssueItems [example_issue, example_issue]) None
     = Inr (json_save duplicated_snapshot None) \<and>
   json_load (json_save duplicated_snapshot None) = Inr (Some duplicated_snapshot) \<and>
   collection_ids KIssues duplicated_snapshot = [10, 10] \<and>
   count_list (collection_ids KIssues duplicated_snapshot) 10 = 2"
proof -
  let ?its = "IssueItems [example_issue, example_issue]"
  have general: "\<exists>f' d'. json_append example_clock ?its None = Inr f' \<and>
      json_load f' = Inr (Some d') \<and>
      collection_ids (kind_of ?its) d' =
        stored_ids (kind_of ?its) None
        @ filter (\<lambda>k. k \<notin> set (stored_ids (kind_of ?its) None)) (item_ids ?its) \<and>
      2 \<le> count_list (collection_ids (kind_of ?its) d') (item_ids ?its ! 0)"
    by (rule append_keeps_repeated_new_ids [where i = 0 and j = 1 and f = None and stored = None])
       (simp_all add: json_load_absent stored_ids_def)
  have here: "json_append example_clock ?its None = Inr (json_save duplicated_snapshot None) \<and>
      json_load (json_save duplicated_snapshot None) = Inr (Some duplicated_snapshot) \<and>
      collection_ids KIssues duplicated_snapshot = [10, 10] \<and>
      count_list (collection_ids KIssues duplicated_snapshot) 10 = 2"
    by (simp add: json_append_absent json_load_absent json_load_save empty_activity_def
        duplicated_snapshot_def example_issue_def)
  from general show ?thesis by - (rule here)
qed

section \<open>The store's invariant under sequences of appends\<close>

lemma distinct_append_filter:
  "distinct xs \<Longrightarrow> distinct ys \<Longrightarrow> distinct (xs @ filter (\<lambda>k. k \<notin> set xs) ys)"
  by (induction ys) auto

lemma snapshot_ok_set_new_items:
  "distinct (item_ids its) \<Longrightarrow> snapshot_ok (set_new_items its (empty_activity now))"
  by (cases its) (simp_all add: snapshot_ok_def empty_activity_def)

lemma map_filter_ids:
  "map f (filter (\<lambda>x. f x \<notin> A) xs) = filter (\<lambda>k. k \<notin> A) (map f xs)"
  by (induction xs) auto

lemma stored_and_new_disjoint:
  "f ` A \<inter> f ` {x \<in> B. f x \<notin> f ` A} = {}"
by (auto simp: image_iff)

lemma snapshot_ok_merge_items:
  "snapshot_ok d \<Longrightarrow> distinct (item_ids its) \<Longrightarrow> snapshot_ok (merge_items now its d)"
  by (cases its) (simp_all add: snapshot_ok_def Let_def distinct_map_filter stored_and_new_disjoint)

lemma json_append_store_ok:
  assumes "store_ok f" "distinct (item_ids its)"
  shows "\<exists>f' d'. json_append now its f = Inr f' \<and> json_load f' = Inr (Some d') \<and> snapshot_ok d'"
proof (cases "json_load f")
  case (Inl e)
  with assms show ?thesis by (simp add: store_ok_def)
next
  case (Inr stored)
  show ?thesis
  proof (cases stored)
    case None
    with Inr assms show ?thesis
      by (simp add: json_append_absent json_load_save snapshot_ok_set_new_items)
  next
    case (Some d)
    with Inr assms show ?thesis
      by (simp add: json_append_existing json_load_save snapshot_ok_merge_items store_ok_def)
  qed
qed

text \<open>
  What \<open>append\<close> does keep. After every call that returns, the total of the appended
  kind is the length of its collection, whatever the lists hold. And as long as no
  single call's list repeats an id, a store whose collections hold each id once stays
  so, however the calls overlap with each other and with the store.
\<close>

lemma total_after_any_append:
  assumes "json_append now its f = Inr f'"
  shows "\<exists>d'. json_load f' = Inr (Some d')
           \<and> total_of (kind_of its) d' = int (length (collection_ids (kind_of its) d'))"
proof (cases "json_load f")
  case (Inl e)
  with assms show ?thesis by (simp add: json_append_def)
next
  case (Inr stored)
  show ?thesis
  proof (cases stored)
    case None
    with Inr assms have "f' = json_save (set_new_items its (empty_activity now)) f"
      by (simp add: json_append_absent)
    then show ?thesis
      by (cases its) (simp_all add: json_load_save)
  next
    case (Some d)
    with Inr assms have "f' = json_save (merge_items now its d) f"
      by (simp add: json_append_existing)
    then show ?thesis
      by (cases its) (simp_all add: json_load_save Let_def)
  qed
qed

lemma appends_keep_ids_unique:
  assumes "store_ok f" and "calls_distinct calls" and "calls \<noteq> []"
  shows "\<exists>f' d'. run_appends calls f = Inr f' \<and> json_load f' = Inr (Some d') \<and>
           distinct (map pr_id (pullRequests d')) \<and>
           distinct (map iss_id (issues d')) \<and>
           distinct (map rv_id (reviews d')) \<and>
           totalPullRequests (metadata d') = int (length (pullRequests d')) \<and>
           totalIssues (metadata d') = int (length (issues d')) \<and>
           totalReviews (metadata d') = int (length (reviews d'))"
  using assms
proof (induction calls arbitrary: f)
  case Nil
  then show ?case by simp
next
  case (Cons c calls)
  obtain now its where c: "c = (now, its)" by (cases c)
  with Cons.prems have d: "distinct (item_ids its)" and rest: "calls_distinct calls" by simp_all
  from json_append_store_ok [OF Cons.prems(1) d, of now]
  obtain f1 d1 where f1: "json_append now its f = Inr f1" "json_load f1 = Inr (Some d1)" "snapshot_ok d1"
    by blast
  then have ok1: "store_ok f1" by (simp add: store_ok_def)
  show ?case
  proof (cases calls)
    case Nil
    with c f1 show ?thesis by (auto simp: snapshot_ok_def)
  next
    case (Cons c' cs)
    then have "calls \<noteq> []" by simp
    from Cons.IH [OF ok1 rest this] c f1 show ?thesis by simp
  qed
qed

text \<open>
  C2. The store is to hold each id once after any sequence of \<open>append\<close> calls with
  overlapping ids, with the total equal to the collection's length. \<open>JsonStorage.append\<close>
  removes from the new items only the ids that are already stored, so an id that one
  call's list holds twice is written twice: for every issue \<open>x\<close>,
  \<open>append("issues", [x, x])\<close> followed by \<open>append("issues", [x])\<close> on a store without a
  file leaves the issues \<open>[x, x]\<close>, the id of \<open>x\<close> twice, under a total of 2. The
  relational backend, given the same two calls on an empty database, holds one row for
  that id.
\<close>

theorem append_sequence_repeats_id:
  "(\<exists>f' d'. run_appends [(t1, IssueItems [x, x]), (t2, IssueItems [x])] None = Inr f'
       \<and> json_load f' = Inr (Some d')
       \<and> issues d' = [x, x]
       \<and> collection_ids KIssues d' = [iss_id x, iss_id x]
       \<and> totalIssues (metadata d') = 2)
   \<and> map irow_github_id
       (db_issues (sqlite_append (IssueItems [x])
                     (sqlite_append (IssueItems [x, x]) empty_database)))
     = [iss_id x]"
proof
  let ?d1 = "set_new_items (IssueItems [x, x]) (empty_activity t1)"
  let ?d2 = "merge_items t2 (IssueItems [x]) ?d1"
  have "run_appends [(t1, IssueItems [x, x]), (t2, IssueItems [x])] None
          = Inr (json_save ?d2 (json_save ?d1 None))"
    by (simp add: json_append_absent json_load_absent json_append_existing json_load_save)
  moreover have "issues ?d2 = [x, x]" "totalIssues (metadata ?d2) = 2"
    by (simp_all add: Let_def)
  ultimately show "\<exists>f' d'. run_appends [(t1, IssueItems [x, x]), (t2, IssueItems [x])] None = Inr f'
       \<and> json_load f' = Inr (Some d')
       \<and> issues d' = [x, x]
       \<and> collection_ids KIssues d' = [iss_id x, iss_id x]
       \<and> totalIssues (metadata d') = 2"
    by (intro exI [of _ "json_save ?d2 (json_save ?d1 None)"] exI [of _ ?d2])
       (simp add: json_load_save)
next
  show "map irow_github_id
       (db_issues (sqlite_append (IssueItems [x])
                     (sqlite_append (IssueItems [x, x]) empty_database)))
     = [iss_id x]"
    by (simp add: empty_database_def insert_issue_def issue_collides_def issue_row_of_def Let_def)
qed

section \<open>The relational backend: save, then load\<close>























lemma example_timestamps:
  "\<not> numeric_literal ''2025-01-01T00:00:00Z''" "\<not> numeric_literal ''2025-01-02T00:00:00Z''"
  "numeric_literal ''9''" "numeric_literal '' 1.5e3 ''" "\<not> numeric_literal ''1e''"
  by (simp_all add: numeric_literal_def drop_sign_def is_space_def is_digit_def Let_def)


text \<open>
  A timestamp that reads as a number does not come back as the text that was saved:
  for an issue created at \<open>9\<close> the cell holds a number, and what \<open>load\<close> returns is not a
  snapshot.
\<close>

lemma numeric_timestamp_loads_as_number:
  "sqlite_load example_clock
     (sqlite_save (two_of_each\<lparr>issues := [example_issue\<lparr>iss_createdAt := ''9''\<rparr>]\<rparr>)
        empty_database)
   = NumberInTimestamp"
  by (simp add: sqlite_load_def sqlite_save_def two_of_each_def empty_database_def
      insert_pull_request_def insert_issue_def save_review_def find_pr_by_github_id_def
      pull_request_row_def issue_row_of_def pull_request_of_row_def issue_of_row_def
      pr_collides_def issue_collides_def
      example_pull_request_def example_pull_request_2_def example_issue_def example_review_def
      example_repository_def numeric_affinity_def cell_text_def optional_cell_text_def
      or_null_def example_timestamps Let_def)




section \<open>The parent of a review in the relational backend\<close>

text \<open>
  C5, evaluated. Saving the example snapshot (pull request 100 of owner/repo with id 1,
  and a review of it with id 100) leaves the reviews table empty: \<open>save\<close> looks for a
  pull request whose \<open>github_id\<close> is the review's own id and finds none, although the
  lookup by number, owner and name finds row 1. \<open>append\<close> of the same review to the same
  database inserts it with \<open>pr_id\<close> 1.
\<close>

theorem save_drops_review_that_append_links:
  "db_reviews (sqlite_save example_snapshot empty_database) = []
   \<and> find_pr_by_number (rv_pullRequestNumber example_review)
        (repo_owner (rv_repository example_review)) (repo_name (rv_repository example_review))
        (sqlite_save example_snapshot empty_database) = Some 1
   \<and> find_pr_by_github_id (rv_id example_review) (sqlite_save example_snapshot empty_database) = None
   \<and> db_reviews (sqlite_append (ReviewItems [example_review])
                    (sqlite_save example_snapshot empty_database))
       = [review_row_of 1 1 example_review]"
  by (simp add: sqlite_save_def example_snapshot_def empty_database_def insert_pull_request_def
      insert_issue_def save_review_def append_review_def insert_review_def
      find_pr_by_github_id_def find_pr_by_number_def pull_request_row_def
      example_pull_request_def example_review_def example_repository_def Let_def)

section \<open>The paginator always stops\<close>

lemma window_attempts:
  "pg_attempts (window Date_parse search baseQuery sortField st) = Suc (pg_attempts st)"
  by (cases "pg_currentDate st")
     (simp_all add: window_def close_window_def Let_def split: option.split)

lemma outer_loop_attempts:
  "pg_attempts (outer_loop Date_parse search baseQuery sortField st)
     \<le> pg_attempts st
         + (if pg_hasMore st then Suc (cursor_measure (pg_currentDate st)) else 0)"
proof (induction Date_parse search baseQuery sortField st rule: outer_loop.induct)
  case (1 Date_parse search baseQuery sortField st)
  show ?case
  proof (cases "pg_hasMore st")
    case False
    then show ?thesis by (simp add: outer_loop.simps [of _ _ _ _ st])
  next
    case True
    let ?st = "window Date_parse search baseQuery sortField st"
    have "pg_attempts (outer_loop Date_parse search baseQuery sortField ?st)
            \<le> pg_attempts ?st
                + (if pg_hasMore ?st then Suc (cursor_measure (pg_currentDate ?st)) else 0)"
      using "1.IH" [OF True] .
    also have "\<dots> \<le> Suc (pg_attempts st) + cursor_measure (pg_currentDate st)"
      using window_decreases [of Date_parse search baseQuery sortField st]
      by (cases "pg_hasMore (window Date_parse search baseQuery sortField st)")
         (simp_all add: window_attempts)
    finally show ?thesis
      using True by (simp add: outer_loop.simps [of _ _ _ _ st])
  qed
qed

lemma outer_loop_stops:
  "\<not> pg_hasMore (outer_loop Date_parse search baseQuery sortField st)"
proof (induction Date_parse search baseQuery sortField st rule: outer_loop.induct)
  case (1 Date_parse search baseQuery sortField st)
  then show ?case
    by (cases "pg_hasMore st") (simp_all add: outer_loop.simps [of _ _ _ _ st])
qed

lemma cursor_measure_new_Date:
  "cursor_measure (new_Date now) \<le> Suc (nat ((now - 1199145600000) div 1000 + 1))"
  by (simp add: new_Date_def)

lemma close_window_goes_on:
  "pg_hasMore (close_window w st) =
     (ws_thrown w = None \<and> ws_hasMore w \<and> \<not> date_le (ws_currentDate w) oldestDate
      \<and> ws_batchResults w \<noteq> [])"
  by (cases "ws_thrown w") (auto simp: close_window_def Let_def)

text \<open>
  C9. Whatever the search endpoint answers, the paginator's outer loop runs a bounded
  number of times: at most one turn per whole second between the starting time and the
  floor 2008-01-01 (time value 1199145600000), plus two, so the sequence of yielded
  batches is finite. When the run is over the loop's flag is down. After a window the
  loop goes on exactly when nothing was thrown, no page ended the enumeration, the
  cursor is still above the floor and the window's batch is not empty: a cursor at the
  floor or a window with zero items ends it.
\<close>

theorem paginateSearch_is_finite:
  "pg_attempts (paginateSearch Date_parse search baseQuery sortField now)
     \<le> nat ((now - 1199145600000) div 1000 + 1) + 2
   \<and> \<not> pg_hasMore (paginateSearch Date_parse search baseQuery sortField now)
   \<and> pg_hasMore (close_window w st) =
       (ws_thrown w = None \<and> ws_hasMore w \<and> \<not> date_le (ws_currentDate w) oldestDate
        \<and> ws_batchResults w \<noteq> [])"
proof -
  let ?st0 = "\<lparr>pg_currentDate = new_Date now, pg_hasMore = True, pg_attempts = 0,
               pg_calls = 0, pg_sizes = [], pg_events = [], pg_thrown = None\<rparr>"
  have "pg_attempts (outer_loop Date_parse search baseQuery sortField ?st0)
          \<le> pg_attempts ?st0
              + (if pg_hasMore ?st0 then Suc (cursor_measure (pg_currentDate ?st0)) else 0)"
    by (rule outer_loop_attempts)
  also have "\<dots> = Suc (cursor_measure (new_Date now))" by simp
  also have "\<dots> \<le> nat ((now - 1199145600000) div 1000 + 1) + 2"
    using cursor_measure_new_Date [of now] by simp
  finally show ?thesis
    by (simp add: paginateSearch_def outer_loop_stops close_window_goes_on)
qed

section \<open>A window rejected on its first page\<close>

lemma yielded_append: "yielded (es @ fs) = yielded es @ yielded fs"
  by (induction es rule: yielded.induct) simp_all

text \<open>
  C1, evaluated. When the very first search call is answered with status 422, whatever
  the endpoint would answer afterwards, the paginator lowers the cursor by a day and
  leaves the page loop; the batch is empty, so the flag goes down and the run is over
  after one turn of the outer loop and one search call, with nothing yielded and
  nothing thrown. (A starting time outside the range of dates makes the first turn
  throw a RangeError before any call.) The narrower window is never queried.
\<close>

theorem paginate_gives_up_after_first_422:
  "pg_attempts (paginateSearch Date_parse (reject_first (JsError (Some 422) msg) search)
                  baseQuery sortField now) = 1
   \<and> yielded (pg_events (paginateSearch Date_parse (reject_first (JsError (Some 422) msg) search)
                  baseQuery sortField now)) = []
   \<and> pg_calls (paginateSearch Date_parse (reject_first (JsError (Some 422) msg) search)
                  baseQuery sortField now) = (if new_Date now = None then 0 else 1)
   \<and> pg_thrown (paginateSearch Date_parse (reject_first (JsError (Some 422) msg) search)
                  baseQuery sortField now) = (if new_Date now = None then Some range_error else None)"
proof (cases "new_Date now")
  case None
  then show ?thesis
    by (simp add: paginateSearch_def outer_loop.simps window_def)
next
  case (Some t)
  then show ?thesis
    by (simp add: paginateSearch_def outer_loop.simps window_def close_window_def
        first_page_def window_request_def page_loop.simps reject_first_def maxPages_def
        yielded_append Let_def)
qed

section \<open>250 items held by the endpoint\<close>

lemma held_search_page:
  assumes "\<forall>item \<in> set held. dated_before Date_parse sortField (t div day_ms) item"
  shows "held_search Date_parse held n ((window_request baseQuery sortField t)\<lparr>rq_page := p\<rparr>)
           = Inr \<lparr>resp_items = take 100 (drop (100 * (p - 1)) held), resp_incomplete = False\<rparr>"
proof -
  have "filter (dated_before Date_parse sortField (t div day_ms)) held = held"
    using assms by (simp add: filter_id_conv)
  then show ?thesis
    by (simp add: held_search_def window_request_def)
qed

lemma three_pages: "take 100 xs @ take 100 (drop 100 xs) @ drop 200 xs = xs"
proof -
  have "take 100 (drop 100 xs) @ drop 100 (drop 100 xs) = drop 100 xs"
    by (rule append_take_drop_id)
  then have "take 100 (drop 100 xs) @ drop 200 xs = drop 100 xs"
    by simp
  then show ?thesis by simp
qed

lemma page_loop_held:
  fixes st :: paginate_state and baseQuery :: string
  assumes len: "length held = 250"
    and dated: "\<forall>item \<in> set held. dated_before Date_parse sortField (t div day_ms) item"
  defines "w \<equiv> page_loop Date_parse (held_search Date_parse held)
                 (window_request baseQuery sortField t) (first_page baseQuery sortField t st)"
  shows "ws_batchResults w = held \<and> ws_sizes w = pg_sizes st @ [100, 100, 50]
         \<and> ws_calls w = pg_calls st + 3 \<and> \<not> ws_hasMore w \<and> ws_thrown w = None
         \<and> ws_events w = ws_events (first_page baseQuery sortField t st)"
proof -
  note page = held_search_page [OF dated]
  have nonempty: "held \<noteq> []" using len by auto
  show ?thesis
    unfolding w_def
    by (simp add: page_loop.simps page first_page_def maxPages_def len nonempty
        three_pages)
qed

lemma outer_loop_done:
  "\<not> pg_hasMore st \<Longrightarrow> outer_loop Date_parse search baseQuery sortField st = st"
  by (simp add: outer_loop.simps [of _ _ _ _ st])

lemma outer_loop_turn:
  "pg_hasMore st \<Longrightarrow>
   outer_loop Date_parse search baseQuery sortField st
     = outer_loop Date_parse search baseQuery sortField
         (window Date_parse search baseQuery sortField st)"
  by (simp add: outer_loop.simps [of _ _ _ _ st])

lemma paginate_held:
  assumes len: "length held = 250"
    and dated: "\<forall>item \<in> set held. dated_before Date_parse sortField (now div day_ms) item"
    and valid: "new_Date now = Some now"
  shows "yielded (pg_events (paginateSearch Date_parse (held_search Date_parse held)
                               baseQuery sortField now)) = [held]
       \<and> pg_sizes (paginateSearch Date_parse (held_search Date_parse held)
                               baseQuery sortField now) = [100, 100, 50]
       \<and> pg_attempts (paginateSearch Date_parse (held_search Date_parse held)
                               baseQuery sortField now) = 1
       \<and> pg_calls (paginateSearch Date_parse (held_search Date_parse held)
                               baseQuery sortField now) = 3
       \<and> pg_thrown (paginateSearch Date_parse (held_search Date_parse held)
                               baseQuery sortField now) = None"
proof -
  let ?st0 = "\<lparr>pg_currentDate = Some now, pg_hasMore = True, pg_attempts = 0, pg_calls = 0,
               pg_sizes = [], pg_events = [], pg_thrown = None\<rparr>"
  have nonempty: "held \<noteq> []" using len by auto
  from page_loop_held [OF len dated, of baseQuery ?st0]
  have w: "window Date_parse (held_search Date_parse held) baseQuery sortField ?st0
             = ?st0\<lparr>pg_currentDate :=
                      ws_currentDate (page_loop Date_parse (held_search Date_parse held)
                         (window_request baseQuery sortField now)
                         (first_page baseQuery sortField now ?st0)),
                    pg_hasMore := False, pg_attempts := 1, pg_calls := 3,
                    pg_sizes := [100, 100, 50],
                    pg_events := [Logged Debug (SearchingWithQuery baseQuery sortField (now div day_ms)),
                                  Yielded held]\<rparr>"
    by (simp add: window_def close_window_def first_page_def nonempty)
  show ?thesis
    by (simp add: paginateSearch_def valid outer_loop_turn [of ?st0] w outer_loop_done)
qed

lemma of_char_digit_char: "n < 10 \<Longrightarrow> (of_char (digit_char n) :: nat) = 48 + n"
  by (simp add: digit_char_def)

lemma digit_value_digit_char: "n < 10 \<Longrightarrow> digit_value (digit_char n) = Some (int n)"
  by (simp add: digit_value_def digit_char_def Let_def)

lemma iso_parse_example:
  assumes "k < 250"
  shows "iso_parse (example_created_at k) = Some (1698840000000 + 1000 * int (249 - k))"
proof -
  define m where "m = (249 - k) div 60"
  define s1 where "s1 = (249 - k) mod 60 div 10"
  define s0 where "s0 = (249 - k) mod 60 mod 10"
  have bounds: "m < 10" "s1 < 10" "s0 < 10" "m < 5" "s1 < 6"
    unfolding m_def s1_def s0_def by auto
  have "249 - k = 60 * m + (249 - k) mod 60"
    unfolding m_def by simp
  moreover have "(249 - k) mod 60 = 10 * s1 + s0"
    unfolding s1_def s0_def by simp
  ultimately have "249 - k = 60 * m + 10 * s1 + s0"
    by simp
  then have "int (249 - k) = int (60 * m + 10 * s1 + s0)"
    by simp
  then have total: "int (249 - k) = 60 * int m + 10 * int s1 + int s0"
    by simp
  have "iso_parse (''2023-11-01T12:0'' @ [digit_char m] @ '':'' @ [digit_char s1, digit_char s0] @ ''Z'')
          = Some (1698840000000 + 1000 * (60 * int m + 10 * int s1 + int s0))"
    using bounds
    by (simp add: iso_parse_def of_char_digit_char digit_value_def days_from_civil_def Let_def)
  then show ?thesis
    by (simp add: example_created_at_def m_def s1_def s0_def total [unfolded m_def s1_def s0_def])
qed

lemma example_items_dated:
  "\<forall>item \<in> set example_items. dated_before iso_parse Created (example_now div day_ms) item"
proof
  fix item assume "item \<in> set example_items"
  then obtain k where k: "k < 250" "item = example_search_item k"
    by (auto simp: example_items_def)
  then show "dated_before iso_parse Created (example_now div day_ms) item"
    using iso_parse_example [OF k(1)]
    by (simp add: dated_before_def example_search_item_def example_now_def day_ms_def)
qed

text \<open>
  C4, as the code has it. For the endpoint holding the 250 example items, one second
  apart and all dated before the starting day, the run makes three search calls that
  return 100, 100 and 50 items, in one window; no response has zero items.
\<close>

theorem no_empty_window_for_250_items:
  "pg_sizes (paginateSearch iso_parse (held_search iso_parse example_items)
               ''author:testuser type:pr'' Created example_now) = [100, 100, 50]
   \<and> pg_attempts (paginateSearch iso_parse (held_search iso_parse example_items)
               ''author:testuser type:pr'' Created example_now) = 1
   \<and> 0 \<notin> set (pg_sizes (paginateSearch iso_parse (held_search iso_parse example_items)
               ''author:testuser type:pr'' Created example_now))"
proof -
  have len: "length example_items = 250"
    by (simp add: example_items_def)
  have valid: "new_Date example_now = Some example_now"
    by (simp add: new_Date_def example_now_def max_time_def)
  from paginate_held [OF len example_items_dated valid, of "''author:testuser type:pr''"]
  show ?thesis by simp
qed

text \<open>
  C4, amended. For an endpoint that holds exactly 250 items, all dated before the start
  of the day on which the paginator starts, the paginator yields one batch that is the
  list of the 250 items as the endpoint holds them: each item once, none lost. The run
  is one turn of the outer loop with three search calls returning 100, 100 and 50
  items, it throws nothing, and it ends because the third page is short (fewer than
  100 items), not because a window returned zero items.
\<close>

theorem paginate_250_items:
  assumes "length held = 250"
    and "\<forall>item \<in> set held. dated_before Date_parse sortField (now div day_ms) item"
    and "new_Date now = Some now"
  shows "concat (yielded (pg_events (paginateSearch Date_parse (held_search Date_parse held)
                                       baseQuery sortField now))) = held
       \<and> yielded (pg_events (paginateSearch Date_parse (held_search Date_parse held)
                                       baseQuery sortField now)) = [held]
       \<and> pg_sizes (paginateSearch Date_parse (held_search Date_parse held)
                                       baseQuery sortField now) = [100, 100, 50]
       \<and> pg_attempts (paginateSearch Date_parse (held_search Date_parse held)
                                       baseQuery sortField now) = 1
       \<and> pg_thrown (paginateSearch Date_parse (held_search Date_parse held)
                                       baseQuery sortField now) = None"
  using paginate_held [OF assms, of baseQuery] by simp

theorem paginate_250_items_witness:
  "length example_items = 250
   \<and> new_Date example_now = Some example_now
   \<and> concat (yielded (pg_events (paginateSearch iso_parse (held_search iso_parse example_items)
                                     ''author:testuser type:pr'' Created example_now)))
       = example_items
   \<and> pg_thrown (paginateSearch iso_parse (held_search iso_parse example_items)
                                     ''author:testuser type:pr'' Created example_now) = None"
proof -
  have len: "length example_items = 250"
    by (simp add: example_items_def)
  have valid: "new_Date example_now = Some example_now"
    by (simp add: new_Date_def example_now_def max_time_def)
  from paginate_250_items [OF len example_items_dated valid, of "''author:testuser type:pr''"]
  show ?thesis using len valid by simp
qed

section \<open>fetchPullRequests and failing detail lookups\<close>

lemma rights_append: "rights (xs @ ys) = rights xs @ rights ys"
  by (induction xs rule: rights.induct) simp_all

lemma lefts_append: "lefts (xs @ ys) = lefts xs @ lefts ys"
  by (induction xs rule: lefts.induct) simp_all

lemma warnings_append: "warnings (xs @ ys) = warnings xs + warnings ys"
  by (simp add: warnings_def)

lemma process_pull_requests_eq:
  "process_pull_requests a user batch (prs, lg) =
     (prs @ rights (map (pull_request_of_item a user) batch),
      lg @ lefts (map (pull_request_of_item a user) batch))"
proof (induction batch arbitrary: prs lg)
  case Nil
  show ?case by simp
next
  case (Cons item rest)
  show ?case
    by (cases "pull_request_of_item a user item") (simp_all add: Cons.IH)
qed

lemma pull_request_warning:
  "pull_request_of_item a user item = Inl w \<Longrightarrow> fst w = Warn"
  by (auto simp: pull_request_of_item_def Let_def split: prod.splits sum.splits)

lemma warnings_lefts:
  "warnings (lefts (map (pull_request_of_item a user) batch))
     = length (lefts (map (pull_request_of_item a user) batch))"
proof (induction batch)
  case Nil
  show ?case by (simp add: warnings_def)
next
  case (Cons item rest)
  show ?case
  proof (cases "pull_request_of_item a user item")
    case (Inl w)
    then have "fst w = Warn" by (rule pull_request_warning)
    with Inl Cons.IH show ?thesis by (simp add: warnings_def)
  next
    case (Inr pr)
    with Cons.IH show ?thesis by simp
  qed
qed

lemma consume_pull_requests_eq:
  "fst (consume_pull_requests a user es (prs, lg))
     = prs @ rights (map (pull_request_of_item a user) (concat (yielded es)))
   \<and> warnings (snd (consume_pull_requests a user es (prs, lg)))
     = warnings lg + warnings (logged es)
       + length (lefts (map (pull_request_of_item a user) (concat (yielded es))))"
proof (induction es arbitrary: prs lg)
  case Nil
  show ?case by (simp add: warnings_def)
next
  case (Cons e es)
  show ?case
  proof (cases e)
    case (Logged l m)
    have "warnings (lg @ [(l, m)]) + warnings (logged es) = warnings lg + warnings ((l, m) # logged es)"
      by (simp add: warnings_def)
    with Logged Cons.IH [of prs "lg @ [(l, m)]"] show ?thesis by simp
  next
    case (Yielded batch)
    let ?f = "pull_request_of_item a user"
    have w: "warnings (lg @ [(Info, ProcessingPullRequests (length batch))] @ lefts (map ?f batch))
               = warnings lg + length (lefts (map ?f batch))"
      using warnings_lefts [of a user batch] by (simp add: warnings_append) (simp add: warnings_def)
    from Yielded Cons.IH [of "prs @ rights (map ?f batch)"
        "(lg @ [(Info, ProcessingPullRequests (length batch))]) @ lefts (map ?f batch)"] w
    show ?thesis
      by (simp add: process_pull_requests_eq rights_append lefts_append)
  qed
qed

lemma logged_append: "logged (es @ fs) = logged es @ logged fs"
  by (induction es rule: logged.induct) simp_all

lemma page_loop_logs:
  "filter is_detail_warning (logged (ws_events (page_loop Date_parse search rq st)))
     = filter is_detail_warning (logged (ws_events st))"
proof (induction Date_parse search rq st rule: page_loop.induct)
  case (1 Date_parse search rq st)
  show ?case
  proof (cases "ws_page st \<le> maxPages")
    case False
    then show ?thesis by (simp add: page_loop.simps [of _ _ _ st])
  next
    case True
    show ?thesis
    proof (cases "search (ws_calls st) (rq\<lparr>rq_page := ws_page st\<rparr>)")
      case (Inl error)
      with True show ?thesis
        by (simp add: page_loop.simps [of _ _ _ st] logged_append is_detail_warning_def)
    next
      case (Inr response)
      show ?thesis
      proof (cases "resp_items response \<noteq> [] \<and> \<not> resp_incomplete response
                    \<and> \<not> length (resp_items response) < 100")
        case False
        with True Inr show ?thesis
          by (auto simp: page_loop.simps [of _ _ _ st] logged_append is_detail_warning_def)
      next
        case more: True
        from "1.IH" [OF True Inr] more True Inr show ?thesis
          by (simp add: page_loop.simps [of _ _ _ st])
      qed
    qed
  qed
qed

lemma window_logs:
  "filter is_detail_warning (logged (pg_events (window Date_parse search baseQuery sortField st)))
     = filter is_detail_warning (logged (pg_events st))"
proof (cases "pg_currentDate st")
  case None
  then show ?thesis by (simp add: window_def)
next
  case (Some t)
  let ?w = "page_loop Date_parse search (window_request baseQuery sortField t)
              (first_page baseQuery sortField t st)"
  have "filter is_detail_warning (logged (ws_events ?w))
          = filter is_detail_warning (logged (pg_events st))"
    by (simp add: page_loop_logs first_page_def logged_append is_detail_warning_def)
  with Some show ?thesis
    by (cases "ws_thrown ?w") (simp_all add: window_def close_window_def Let_def logged_append)
qed

lemma outer_loop_logs:
  "filter is_detail_warning (logged (pg_events (outer_loop Date_parse search baseQuery sortField st)))
     = filter is_detail_warning (logged (pg_events st))"
proof (induction Date_parse search baseQuery sortField st rule: outer_loop.induct)
  case (1 Date_parse search baseQuery sortField st)
  then show ?case
    by (cases "pg_hasMore st") (simp_all add: outer_loop.simps [of _ _ _ _ st] window_logs)
qed

lemma paginateSearch_logs:
  "filter is_detail_warning (logged (pg_events (paginateSearch Date_parse search baseQuery sortField now)))
     = []"
  by (simp add: paginateSearch_def outer_loop_logs)


lemma detail_warning_of_item:
  "pull_request_of_item a user item
     = (case api_pulls_get a (fst (owner_repo (si_repository_url item)))
               (snd (owner_repo (si_repository_url item))) (si_number item) of
          Inl e \<Rightarrow>
            Inl (Warn, FailedPullRequestDetails (fst (owner_repo (si_repository_url item)))
                         (template_text (snd (owner_repo (si_repository_url item))))
                         (si_number item) (err_message e))
        | Inr d \<Rightarrow> Inr (to_pull_request user item d))"
  by (simp add: pull_request_of_item_def case_prod_beta Let_def)

lemma lefts_lookups:
  "lefts (map (pull_request_of_item a user) batch)
     = concat (map (\<lambda>item.
         case api_pulls_get a (fst (owner_repo (si_repository_url item)))
                (snd (owner_repo (si_repository_url item))) (si_number item) of
           Inl e \<Rightarrow>
             [(Warn, FailedPullRequestDetails (fst (owner_repo (si_repository_url item)))
                        (template_text (snd (owner_repo (si_repository_url item))))
                        (si_number item) (err_message e))]
         | Inr d \<Rightarrow> []) batch)"
  by (induction batch) (simp_all add: detail_warning_of_item split: sum.split)

lemma rights_lookups:
  "rights (map (pull_request_of_item a user) batch)
     = concat (map (\<lambda>item.
         case api_pulls_get a (fst (owner_repo (si_repository_url item)))
                (snd (owner_repo (si_repository_url item))) (si_number item) of
           Inl e \<Rightarrow> []
         | Inr d \<Rightarrow> [to_pull_request user item d]) batch)"
  by (induction batch) (simp_all add: detail_warning_of_item split: sum.split)

lemma filter_lefts_lookups:
  "filter is_detail_warning (lefts (map (pull_request_of_item a user) batch))
     = lefts (map (pull_request_of_item a user) batch)"
  by (induction batch)
     (simp_all add: detail_warning_of_item is_detail_warning_def split: sum.split)

lemma consume_detail_warnings:
  "filter is_detail_warning (snd (consume_pull_requests a user es (prs, lg)))
     = filter is_detail_warning lg
       @ lefts (map (pull_request_of_item a user) (concat (yielded es)))"
  if "filter is_detail_warning (logged es) = []"
  using that
proof (induction es arbitrary: prs lg)
  case Nil
  show ?case by simp
next
  case (Cons e es)
  show ?case
  proof (cases e)
    case (Logged l m)
    with Cons.prems have no: "\<not> is_detail_warning (l, m)"
        and rest: "filter is_detail_warning (logged es) = []"
      by (auto split: if_splits)
    from Cons.IH [OF rest, of prs "lg @ [(l, m)]"] Logged no show ?thesis
      by simp
  next
    case (Yielded batch)
    with Cons.prems have rest: "filter is_detail_warning (logged es) = []"
      by simp
    have no: "\<not> is_detail_warning (Info, ProcessingPullRequests (length batch))"
      by (simp add: is_detail_warning_def)
    from Cons.IH [OF rest, of "prs @ rights (map (pull_request_of_item a user) batch)"
        "(lg @ [(Info, ProcessingPullRequests (length batch))])
           @ lefts (map (pull_request_of_item a user) batch)"] Yielded no
    show ?thesis
      by (simp add: process_pull_requests_eq lefts_append filter_lefts_lookups)
  qed
qed

subsection \<open>A search that breaks after the first window\<close>

lemma track_oldest_bounds:
  assumes "\<forall>item \<in> set items. \<exists>d. item_date Date_parse sortField item = Some d \<and> L \<le> d"
    and "L \<le> c"
  shows "\<exists>r. track_oldest Date_parse sortField items (Some c) = Some r \<and> L \<le> r \<and> r \<le> c"
  using assms
proof (induction items arbitrary: c)
  case Nil
  then show ?case by simp
next
  case (Cons item items)
  from Cons.prems obtain d where d: "item_date Date_parse sortField item = Some d" "L \<le> d"
    by auto
  define c' where "c' = (if d < c then d else c)"
  have c': "L \<le> c'" "c' \<le> c"
    using d Cons.prems(2) by (simp_all add: c'_def)
  from Cons.prems have "\<forall>item \<in> set items. \<exists>d. item_date Date_parse sortField item = Some d \<and> L \<le> d"
    by simp
  from Cons.IH [OF this c'(1)] obtain r
    where "track_oldest Date_parse sortField items (Some c') = Some r" "L \<le> r" "r \<le> c'"
    by blast
  with c' d show ?case
    by (auto simp: c'_def Let_def)
qed

lemma hundred_items_dated:
  "\<forall>item \<in> set (take 100 example_items).
     \<exists>d. item_date iso_parse Created item = Some d \<and> 1698840000000 \<le> d"
proof
  fix item assume "item \<in> set (take 100 example_items)"
  then have "item \<in> set example_items" by (rule in_set_takeD)
  then obtain k where k: "k < 250" "item = example_search_item k"
    by (auto simp: example_items_def)
  then show "\<exists>d. item_date iso_parse Created item = Some d \<and> 1698840000000 \<le> d"
    using iso_parse_example [OF k(1)]
    by (simp add: item_date_def new_Date_string_def new_Date_def max_time_def
        example_search_item_def)
qed

lemma breaking_run:
  "pg_thrown (paginateSearch iso_parse breaking_search q Created example_now)
     = Some (JsError (Some 500) ''Server Error'')
   \<and> yielded (pg_events (paginateSearch iso_parse breaking_search q Created example_now))
     = [take 100 example_items]"
proof -
  let ?st0 = "\<lparr>pg_currentDate = Some example_now, pg_hasMore = True, pg_attempts = 0,
               pg_calls = 0, pg_sizes = [], pg_events = [], pg_thrown = None\<rparr>"
  have valid: "new_Date example_now = Some example_now"
    by (simp add: new_Date_def example_now_def max_time_def)
  have len: "length (take 100 example_items) = 100" "take 100 example_items \<noteq> []"
    by (auto simp: example_items_def)
  from track_oldest_bounds [OF hundred_items_dated, of example_now]
  obtain r where r: "track_oldest iso_parse Created (take 100 example_items) (Some example_now) = Some r"
      "1698840000000 \<le> r" "r \<le> example_now"
    by (auto simp: example_now_def)
  let ?E1 = "[Logged Debug (SearchingWithQuery q Created (example_now div day_ms)),
              Logged Warn HitSearchLimit, Yielded (take 100 example_items)]"
  let ?st1 = "\<lparr>pg_currentDate = Some (r - 86400000 - 1000), pg_hasMore = True,
               pg_attempts = 1, pg_calls = 2, pg_sizes = [100], pg_events = ?E1,
               pg_thrown = None\<rparr>"
  have w1: "window iso_parse breaking_search q Created ?st0 = ?st1"
    using r len
    by (simp add: window_def close_window_def first_page_def window_request_def
        page_loop.simps breaking_search_def maxPages_def new_Date_def max_time_def
        oldestDate_def example_now_def Let_def)
  have w2: "\<not> pg_hasMore (window iso_parse breaking_search q Created ?st1)
      \<and> pg_thrown (window iso_parse breaking_search q Created ?st1)
          = Some (JsError (Some 500) ''Server Error'')
      \<and> yielded (pg_events (window iso_parse breaking_search q Created ?st1))
          = [take 100 example_items]"
    by (simp add: window_def close_window_def first_page_def window_request_def
        page_loop.simps breaking_search_def maxPages_def yielded_append Let_def)
  have "paginateSearch iso_parse breaking_search q Created example_now
      = outer_loop iso_parse breaking_search q Created ?st0"
    by (simp add: paginateSearch_def valid)
  also have "\<dots> = outer_loop iso_parse breaking_search q Created ?st1"
    using outer_loop_turn [of ?st0 iso_parse breaking_search q Created] w1 by simp
  also have "\<dots> = outer_loop iso_parse breaking_search q Created
                    (window iso_parse breaking_search q Created ?st1)"
    by (rule outer_loop_turn) simp
  also have "\<dots> = window iso_parse breaking_search q Created ?st1"
    using w2 by (intro outer_loop_done) simp
  finally show ?thesis
    using w2 by simp
qed

lemma consume_keeps_warnings:
  "set (lefts (map (pull_request_of_item a user) (concat (yielded es))))
     \<subseteq> set (snd (consume_pull_requests a user es (prs, lg)))"
proof (induction es arbitrary: prs lg)
  case Nil
  show ?case by simp
next
  case (Cons e es)
  have grows: "set lg \<subseteq> set (snd (consume_pull_requests a user es' (prs', lg)))"
    for es' prs' lg
  proof (induction es' arbitrary: prs' lg)
    case Nil
    show ?case by simp
  next
    case (Cons e' es')
    show ?case
    proof (cases e')
      case (Logged l m)
      with Cons [of "lg @ [(l, m)]" prs'] show ?thesis by auto
    next
      case (Yielded batch)
      with Cons [of "(lg @ [(Info, ProcessingPullRequests (length batch))])
           @ lefts (map (pull_request_of_item a user) batch)"
          "prs' @ rights (map (pull_request_of_item a user) batch)"]
      show ?thesis by (auto simp: process_pull_requests_eq)
    qed
  qed
  show ?case
  proof (cases e)
    case (Logged l m)
    with Cons.IH [of prs "lg @ [(l, m)]"] show ?thesis by simp
  next
    case (Yielded batch)
    let ?lg = "(lg @ [(Info, ProcessingPullRequests (length batch))])
           @ lefts (map (pull_request_of_item a user) batch)"
    let ?prs = "prs @ rights (map (pull_request_of_item a user) batch)"
    from Cons.IH [of ?prs ?lg] grows [of ?lg es ?prs] Yielded show ?thesis
      by (auto simp: process_pull_requests_eq lefts_append)
  qed
qed

lemma set_lefts: "set (lefts xs) = {a. Inl a \<in> set xs}"
  by (induction xs rule: lefts.induct) auto

text \<open>
  C6, as the code has it. A failed lookup does not keep \<open>fetchPullRequests\<close> from raising
  later. The endpoint answers the first search call with a full page of a hundred
  items, the second with status 422, and the third with status 500. The paginator
  yields the hundred items at the end of the first window; \<open>fetchPullRequests\<close> looks
  each of them up, the lookup for number 3 throws and is logged as a warning; the
  second window's search throws, and \<open>fetchPullRequests\<close> raises instead of returning the
  records of the remaining items.
\<close>

theorem fetchPullRequests_raises_after_failed_lookup:
  "yielded (pg_events (paginateSearch iso_parse (api_search breaking_api)
                         ''author:testuser type:pr'' Created example_now))
     = [take 100 example_items]
   \<and> example_search_item 2 \<in> set (take 100 example_items)
   \<and> api_pulls_get breaking_api ''owner'' (Some ''repo'') (si_number (example_search_item 2))
       = Inl (JsError (Some 500) ''Server Error'')
   \<and> (Warn, FailedPullRequestDetails ''owner'' ''repo'' 3 ''Server Error'')
       \<in> set (snd (fetchPullRequests iso_parse breaking_api ''testuser'' example_now))
   \<and> fst (fetchPullRequests iso_parse breaking_api ''testuser'' example_now)
       = Inl (JsError None ''Failed to fetch pull requests: Server Error'')"
proof -
  let ?run = "paginateSearch iso_parse breaking_search ''author:testuser type:pr'' Created example_now"
  let ?w = "(Warn, FailedPullRequestDetails ''owner'' ''repo'' 3 ''Server Error'')"
  have search: "api_search breaking_api = breaking_search"
    by (simp add: breaking_api_def)
  note run = breaking_run [of "''author:testuser type:pr''"]
  have third: "example_search_item 2 \<in> set (take 100 example_items)"
  proof -
    have "take 100 example_items = map example_search_item [0..<100]"
      by (simp add: example_items_def take_map)
    then show ?thesis
      by simp
  qed
  have get: "api_pulls_get breaking_api ''owner'' (Some ''repo'') (si_number (example_search_item 2))
       = Inl (JsError (Some 500) ''Server Error'')"
    by (simp add: breaking_api_def five_items_api_def example_search_item_def)
  have lookup: "pull_request_of_item breaking_api ''testuser'' (example_search_item 2) = Inl ?w"
    by (simp add: pull_request_of_item_def breaking_api_def five_items_api_def owner_repo_def
        example_search_item_def template_text_def Let_def)
  have "Inl ?w \<in> set (map (pull_request_of_item breaking_api ''testuser'') (take 100 example_items))"
  proof -
    from third
    have "pull_request_of_item breaking_api ''testuser'' (example_search_item 2)
            \<in> pull_request_of_item breaking_api ''testuser'' ` set (take 100 example_items)"
      by (rule imageI)
    then show ?thesis
      by (simp only: lookup set_map)
  qed
  then have "?w \<in> set (lefts (map (pull_request_of_item breaking_api ''testuser'')
                                 (concat (yielded (pg_events ?run)))))"
    using run by (simp add: set_lefts)
  with consume_keeps_warnings [of breaking_api "''testuser''" "pg_events ?run" "[]"
      "[(Info, FetchingPullRequests ''testuser'')]"]
  have "?w \<in> set (snd (consume_pull_requests breaking_api ''testuser'' (pg_events ?run)
                          ([], [(Info, FetchingPullRequests ''testuser'')])))"
    by blast
  then have logged: "?w \<in> set (snd (fetchPullRequests iso_parse breaking_api ''testuser'' example_now))"
    using run by (simp add: fetchPullRequests_def search case_prod_beta Let_def)
  have raised: "fst (fetchPullRequests iso_parse breaking_api ''testuser'' example_now)
       = Inl (JsError None ''Failed to fetch pull requests: Server Error'')"
    using run by (simp add: fetchPullRequests_def search case_prod_beta Let_def)
  from run third get logged raised show ?thesis
    by (simp add: search)
qed

subsection \<open>What fetchPullRequests returns and logs\<close>

text \<open>
  C6, amended. For every client, user and starting time: \<open>fetchPullRequests\<close> raises
  exactly when the paginated search raised, then with the message of the search's error
  behind its own prefix; a detail lookup (\<open>pulls.get\<close>) that throws never makes it raise.
  When the search did not raise it returns, in the order of the yielded items, one
  record for every item whose lookup answered, built from the lookup's answer (the
  statement gives every field), and nothing for an item whose lookup threw: only those
  items are skipped. In every run, raised or not, the log holds exactly one warning
  for each item whose lookup threw, naming owner, repository, number and the error's
  message, in the order of the items; together with the paginator's own warnings these
  are all the warnings of the log.
\<close>

theorem fetchPullRequests_skips_failed_lookups:
  "(let run = paginateSearch Date_parse (api_search a)
                (''author:'' @ user @ '' type:pr'') Created now;
        items = concat (yielded (pg_events run));
        lookup = (\<lambda>item. api_pulls_get a (fst (owner_repo (si_repository_url item)))
                    (snd (owner_repo (si_repository_url item))) (si_number item))
    in fst (fetchPullRequests Date_parse a user now)
         = (case pg_thrown run of
              Some error \<Rightarrow>
                Inl (JsError None (''Failed to fetch pull requests: '' @ err_message error))
            | None \<Rightarrow>
                Inr (concat (map (\<lambda>item.
                  case lookup item of
                    Inl e \<Rightarrow> []
                  | Inr d \<Rightarrow>
                      [\<lparr>pr_id = pd_id d,
                        pr_number = pd_number d,
                        pr_title = pd_title d,
                        pr_url = pd_url d,
                        pr_htmlUrl = pd_html_url d,
                        pr_state = pd_state d,
                        pr_createdAt = pd_created_at d,
                        pr_updatedAt = pd_updated_at d,
                        pr_closedAt = truthy (pd_closed_at d),
                        pr_mergedAt = truthy (pd_merged_at d),
                        pr_repository = repository_of (si_repository_url item),
                        pr_author = or_else (pd_user_login d) user,
                        pr_draft = (pd_draft d = Some True),
                        pr_labels = map label_text (pd_labels d),
                        pr_assignees = logins_nonempty (pd_assignees d),
                        pr_reviewers = logins_nonempty (pd_requested_reviewers d),
                        pr_commits = (case pd_commits d of None \<Rightarrow> 0 | Some n \<Rightarrow> n),
                        pr_additions = (case pd_additions d of None \<Rightarrow> 0 | Some n \<Rightarrow> n),
                        pr_deletions = (case pd_deletions d of None \<Rightarrow> 0 | Some n \<Rightarrow> n),
                        pr_changedFiles =
                          (case pd_changed_files d of None \<Rightarrow> 0 | Some n \<Rightarrow> n)\<rparr>]) items)))
       \<and> filter is_detail_warning (snd (fetchPullRequests Date_parse a user now))
           = concat (map (\<lambda>item.
               case lookup item of
                 Inl e \<Rightarrow>
                   [(Warn, FailedPullRequestDetails (fst (owner_repo (si_repository_url item)))
                              (template_text (snd (owner_repo (si_repository_url item))))
                              (si_number item) (err_message e))]
               | Inr d \<Rightarrow> []) items)
       \<and> warnings (snd (fetchPullRequests Date_parse a user now))
           = warnings (logged (pg_events run))
             + length (filter (\<lambda>item. isl (lookup item)) items))"
proof -
  let ?run = "paginateSearch Date_parse (api_search a) (''author:'' @ user @ '' type:pr'') Created now"
  let ?items = "concat (yielded (pg_events ?run))"
  obtain prs lg where c: "consume_pull_requests a user (pg_events ?run)
      ([], [(Info, FetchingPullRequests user)]) = (prs, lg)"
    by (cases "consume_pull_requests a user (pg_events ?run) ([], [(Info, FetchingPullRequests user)])")
  from consume_pull_requests_eq [of a user "pg_events ?run" "[]" "[(Info, FetchingPullRequests user)]"] c
  have prs: "prs = rights (map (pull_request_of_item a user) ?items)"
    and count: "warnings lg = warnings (logged (pg_events ?run))
          + length (lefts (map (pull_request_of_item a user) ?items))"
    by (simp_all add: warnings_def)
  from consume_detail_warnings [OF paginateSearch_logs, of a user Date_parse "api_search a"
      "''author:'' @ user @ '' type:pr''" Created now "[]" "[(Info, FetchingPullRequests user)]"] c
  have lg: "filter is_detail_warning lg = lefts (map (pull_request_of_item a user) ?items)"
    by (simp add: is_detail_warning_def)
  have records: "to_pull_request user item d =
      \<lparr>pr_id = pd_id d, pr_number = pd_number d, pr_title = pd_title d, pr_url = pd_url d,
       pr_htmlUrl = pd_html_url d, pr_state = pd_state d, pr_createdAt = pd_created_at d,
       pr_updatedAt = pd_updated_at d, pr_closedAt = truthy (pd_closed_at d),
       pr_mergedAt = truthy (pd_merged_at d),
       pr_repository = repository_of (si_repository_url item),
       pr_author = or_else (pd_user_login d) user,
       pr_draft = (pd_draft d = Some True),
       pr_labels = map label_text (pd_labels d),
       pr_assignees = logins_nonempty (pd_assignees d),
       pr_reviewers = logins_nonempty (pd_requested_reviewers d),
       pr_commits = (case pd_commits d of None \<Rightarrow> 0 | Some n \<Rightarrow> n),
       pr_additions = (case pd_additions d of None \<Rightarrow> 0 | Some n \<Rightarrow> n),
       pr_deletions = (case pd_deletions d of None \<Rightarrow> 0 | Some n \<Rightarrow> n),
       pr_changedFiles = (case pd_changed_files d of None \<Rightarrow> 0 | Some n \<Rightarrow> n)\<rparr>"
    for item d
    by (cases "pd_draft d") (auto simp: to_pull_request_def num_or_zero_def bool_or_false_def)
  have failed: "length (lefts (map (pull_request_of_item a user) xs))
      = length (filter (\<lambda>item. isl (api_pulls_get a (fst (owner_repo (si_repository_url item)))
                    (snd (owner_repo (si_repository_url item))) (si_number item))) xs)" for xs
    by (induction xs) (simp_all add: detail_warning_of_item split: sum.split)
  have first: "fst (fetchPullRequests Date_parse a user now)
      = (case pg_thrown ?run of
           Some error \<Rightarrow>
             Inl (JsError None (''Failed to fetch pull requests: '' @ err_message error))
         | None \<Rightarrow> Inr prs)"
    using c by (cases "pg_thrown ?run") (simp_all add: fetchPullRequests_def Let_def)
  have second: "filter is_detail_warning (snd (fetchPullRequests Date_parse a user now))
      = filter is_detail_warning lg"
    using c by (cases "pg_thrown ?run")
      (simp_all add: fetchPullRequests_def Let_def is_detail_warning_def)
  have third: "warnings (snd (fetchPullRequests Date_parse a user now)) = warnings lg"
    using c by (cases "pg_thrown ?run")
      (simp_all add: fetchPullRequests_def Let_def warnings_def)
  from prs have prs_eq: "prs = concat (map (\<lambda>item.
      case api_pulls_get a (fst (owner_repo (si_repository_url item)))
             (snd (owner_repo (si_repository_url item))) (si_number item) of
        Inl e \<Rightarrow> []
      | Inr d \<Rightarrow>
          [\<lparr>pr_id = pd_id d, pr_number = pd_number d, pr_title = pd_title d, pr_url = pd_url d,
            pr_htmlUrl = pd_html_url d, pr_state = pd_state d, pr_createdAt = pd_created_at d,
            pr_updatedAt = pd_updated_at d, pr_closedAt = truthy (pd_closed_at d),
            pr_mergedAt = truthy (pd_merged_at d),
            pr_repository = repository_of (si_repository_url item),
            pr_author = or_else (pd_user_login d) user,
            pr_draft = (pd_draft d = Some True),
            pr_labels = map label_text (pd_labels d),
            pr_assignees = logins_nonempty (pd_assignees d),
            pr_reviewers = logins_nonempty (pd_requested_reviewers d),
            pr_commits = (case pd_commits d of None \<Rightarrow> 0 | Some n \<Rightarrow> n),
            pr_additions = (case pd_additions d of None \<Rightarrow> 0 | Some n \<Rightarrow> n),
            pr_deletions = (case pd_deletions d of None \<Rightarrow> 0 | Some n \<Rightarrow> n),
            pr_changedFiles = (case pd_changed_files d of None \<Rightarrow> 0 | Some n \<Rightarrow> n)\<rparr>])
        ?items)"
    by (simp add: rights_lookups records cong: sum.case_cong)
  show ?thesis
    unfolding Let_def
  proof (intro conjI)
    show "fst (fetchPullRequests Date_parse a user now)
      = (case pg_thrown ?run of
           Some error \<Rightarrow>
             Inl (JsError None (''Failed to fetch pull requests: '' @ err_message error))
         | None \<Rightarrow> Inr (concat (map (\<lambda>item.
      case api_pulls_get a (fst (owner_repo (si_repository_url item)))
             (snd (owner_repo (si_repository_url item))) (si_number item) of
        Inl e \<Rightarrow> []
      | Inr d \<Rightarrow>
          [\<lparr>pr_id = pd_id d, pr_number = pd_number d, pr_title = pd_title d, pr_url = pd_url d,
            pr_htmlUrl = pd_html_url d, pr_state = pd_state d, pr_createdAt = pd_created_at d,
            pr_updatedAt = pd_updated_at d, pr_closedAt = truthy (pd_closed_at d),
            pr_mergedAt = truthy (pd_merged_at d),
            pr_repository = repository_of (si_repository_url item),
            pr_author = or_else (pd_user_login d) user,
            pr_draft = (pd_draft d = Some True),
            pr_labels = map label_text (pd_labels d),
            pr_assignees = logins_nonempty (pd_assignees d),
            pr_reviewers = logins_nonempty (pd_requested_reviewers d),
            pr_commits = (case pd_commits d of None \<Rightarrow> 0 | Some n \<Rightarrow> n),
            pr_additions = (case pd_additions d of None \<Rightarrow> 0 | Some n \<Rightarrow> n),
            pr_deletions = (case pd_deletions d of None \<Rightarrow> 0 | Some n \<Rightarrow> n),
            pr_changedFiles = (case pd_changed_files d of None \<Rightarrow> 0 | Some n \<Rightarrow> n)\<rparr>])
        ?items)))"
      unfolding first prs_eq [symmetric] ..
  next
    show "filter is_detail_warning (snd (fetchPullRequests Date_parse a user now))
           = concat (map (\<lambda>item.
               case api_pulls_get a (fst (owner_repo (si_repository_url item)))
                      (snd (owner_repo (si_repository_url item))) (si_number item) of
                 Inl e \<Rightarrow>
                   [(Warn, FailedPullRequestDetails (fst (owner_repo (si_repository_url item)))
                              (template_text (snd (owner_repo (si_repository_url item))))
                              (si_number item) (err_message e))]
               | Inr d \<Rightarrow> []) ?items)"
      unfolding second lg by (rule lefts_lookups)
  next
    show "warnings (snd (fetchPullRequests Date_parse a user now))
           = warnings (logged (pg_events ?run))
             + length (filter (\<lambda>item. isl (api_pulls_get a (fst (owner_repo (si_repository_url item)))
                    (snd (owner_repo (si_repository_url item))) (si_number item))) ?items)"
      unfolding third count failed ..
  qed
qed

subsection \<open>Five items, the third lookup failing\<close>

lemma five_items_page:
  assumes "now div day_ms = 19675"
  shows "held_search iso_parse five_items n
     ((window_request q sf now)\<lparr>rq_page := Suc 0\<rparr>)
   = Inr \<lparr>resp_items = five_items, resp_incomplete = False\<rparr>"
  using assms
  by (cases sf)
     (simp_all add: held_search_def window_request_def five_items_def dated_before_def
      example_search_item_def example_created_at_def digit_char_def iso_parse_def
      digit_value_def days_from_civil_def day_ms_def Let_def)

lemma five_items_run:
  assumes valid: "new_Date now = Some now" and day: "now div day_ms = 19675"
  shows "pg_thrown (paginateSearch iso_parse (held_search iso_parse five_items) q sf now) = None
   \<and> pg_events (paginateSearch iso_parse (held_search iso_parse five_items) q sf now)
       = [Logged Debug (SearchingWithQuery q sf 19675), Yielded five_items]"
proof -
  have five: "five_items \<noteq> []" "length five_items = 5"
    by (simp_all add: five_items_def)
  let ?st0 = "\<lparr>pg_currentDate = Some now, pg_hasMore = True, pg_attempts = 0,
               pg_calls = 0, pg_sizes = [], pg_events = [], pg_thrown = None\<rparr>"
  have w: "\<not> pg_hasMore (window iso_parse (held_search iso_parse five_items) q sf ?st0)
      \<and> pg_thrown (window iso_parse (held_search iso_parse five_items) q sf ?st0) = None
      \<and> pg_events (window iso_parse (held_search iso_parse five_items) q sf ?st0)
          = [Logged Debug (SearchingWithQuery q sf 19675), Yielded five_items]"
    by (simp add: window_def close_window_def first_page_def page_loop.simps maxPages_def
        five_items_page [OF day] five day)
  then show ?thesis
    by (simp add: paginateSearch_def valid outer_loop_turn [of ?st0] outer_loop_done)
qed

lemma example_now_valid:
  "new_Date example_now = Some example_now" "example_now div day_ms = 19675"
  by (simp_all add: new_Date_def example_now_def max_time_def day_ms_def)

lemma five_items_lookups:
  "map (pull_request_of_item five_items_api ''testuser'') five_items
      = [Inr (expected_pull_request 1), Inr (expected_pull_request 2),
         Inl (Warn, FailedPullRequestDetails ''owner'' ''repo'' 3 ''Server Error''),
         Inr (expected_pull_request 4), Inr (expected_pull_request 5)]"
  by (simp add: five_items_def pull_request_of_item_def five_items_api_def owner_repo_def
      example_search_item_def template_text_def Let_def to_pull_request_def example_detail_def
      expected_pull_request_def repository_of_def truthy_def or_else_def bool_or_false_def
      num_or_zero_def logins_nonempty_def)

lemma five_pull_requests:
  assumes valid: "new_Date now = Some now" and day: "now div day_ms = 19675"
  shows "fetchPullRequests iso_parse five_items_api ''testuser'' now
     = (Inr (map expected_pull_request [1, 2, 4, 5]),
        [(Info, FetchingPullRequests ''testuser''),
         (Debug, SearchingWithQuery ''author:testuser type:pr'' Created 19675),
         (Info, ProcessingPullRequests 5),
         (Warn, FailedPullRequestDetails ''owner'' ''repo'' 3 ''Server Error''),
         (Info, FetchedPullRequests 4)])"
proof -
  have search: "api_search five_items_api = held_search iso_parse five_items"
    by (simp add: five_items_api_def)
  have five: "length five_items = 5"
    by (simp add: five_items_def)
  show ?thesis
    using five_items_run [OF valid day, of "''author:testuser type:pr''" Created]
    by (simp add: fetchPullRequests_def search process_pull_requests_eq five_items_lookups five)
qed

theorem fetchPullRequests_skips_failed_lookups_witness:
  "fetchPullRequests iso_parse five_items_api ''testuser'' example_now
     = (Inr (map expected_pull_request [1, 2, 4, 5]),
        [(Info, FetchingPullRequests ''testuser''),
         (Debug, SearchingWithQuery ''author:testuser type:pr'' Created 19675),
         (Info, ProcessingPullRequests 5),
         (Warn, FailedPullRequestDetails ''owner'' ''repo'' 3 ''Server Error''),
         (Info, FetchedPullRequests 4)])
   \<and> map (\<lambda>n. isl (api_pulls_get five_items_api ''owner'' (Some ''repo'') n)) [1, 2, 3, 4, 5]
       = [False, False, True, False, False]"
proof -
  have lookups: "map (\<lambda>n. isl (api_pulls_get five_items_api ''owner'' (Some ''repo'') n)) [1, 2, 3, 4, 5]
       = [False, False, True, False, False]"
    by (simp add: five_items_api_def)
  from fetchPullRequests_skips_failed_lookups [of iso_parse five_items_api "''testuser''" example_now]
  show ?thesis
    using five_pull_requests [OF example_now_valid] lookups by simp
qed

section \<open>The tracker: \<open>fetchAll\<close>\<close>










end
